theory Spec2Isabelle
  imports Complex_Main
begin

section \<open>Ship of Fools: the agent model of \<open>ship_of_fools.py\<close>\<close>

text \<open>
  Python floats are modelled as \<^typ>\<open>real\<close>, Python ints as \<^typ>\<open>int\<close>, a \<open>dict\<close> as
  an association list in insertion order (keys distinct), a \<open>set\<close> of ids as a HOL set.
  An exception is a value of \<open>py_error\<close>.
\<close>

datatype py_error = AttributeError | TypeError | ValueError | KeyError | NotFoundError

datatype Ideology_ship =
  AUTHORITARIAN | REFORMIST | REVOLUTIONARY | CONSERVATIVE | LIBERAL | ANARCHIST

datatype GroupIdentity =
  AUTHORITY | WORKERS | WOMEN | LGBTQ | RELIGIOUS | INDIGENOUS | MERCHANTS

record Memory =
  mem_day :: int
  mem_event :: string
  mem_interpretation :: string
  mem_emotional_impact :: real
  mem_witnesses :: "int list"

record Need =
  need_name :: string
  need_value :: real
  critical_threshold :: real

definition is_critical :: "Need \<Rightarrow> bool" where
  "is_critical n = (need_value n < critical_threshold n)"

text \<open>The dataclass \<open>Character\<close> of \<open>ship_of_fools.py\<close>.\<close>

record SCharacter =
  s_id :: int
  s_name :: string
  s_role :: string
  s_groups :: "GroupIdentity set"
  s_ideology :: Ideology_ship
  s_needs :: "(string \<times> Need) list"
  s_stress :: real
  s_trust_in_captain :: real
  s_memories :: "Memory list"
  s_alliances :: "int set"
  s_speaking_ability :: real
  s_influence :: real

text \<open>
  \<open>self.needs[need_name].value += change\<close> followed by the clamp
  \<open>min(100, max(0, value))\<close>, on the entry stored under the key.
\<close>

fun update_need_entry :: "string \<Rightarrow> real \<Rightarrow> (string \<times> Need) list \<Rightarrow> (string \<times> Need) list" where
  "update_need_entry k d [] = []"
| "update_need_entry k d ((k', n) # ns) =
     (if k' = k then (k', n\<lparr>need_value := min 100 (max 0 (need_value n + d))\<rparr>) # ns
      else (k', n) # update_need_entry k d ns)"

text \<open>One iteration of the loop of \<open>update_needs\<close>: the guard \<open>if need_name in self.needs\<close>.\<close>

definition update_need :: "SCharacter \<Rightarrow> string \<times> real \<Rightarrow> SCharacter" where
  "update_need c kd =
     (if fst kd \<in> set (map fst (s_needs c))
      then c\<lparr>s_needs := update_need_entry (fst kd) (snd kd) (s_needs c)\<rparr>
      else c)"

definition update_needs :: "SCharacter \<Rightarrow> (string \<times> real) list \<Rightarrow> SCharacter" where
  "update_needs c changes = foldl update_need c changes"

definition get_critical_needs :: "SCharacter \<Rightarrow> string list" where
  "get_critical_needs c = map fst (filter (\<lambda>kn. is_critical (snd kn)) (s_needs c))"

text \<open>The agent of the scenario: one need, hunger, at 10 with threshold 30.\<close>

definition agent_X :: SCharacter where
  "agent_X = \<lparr> s_id = 1, s_name = ''X'', s_role = ''worker'', s_groups = {WORKERS},
     s_ideology = LIBERAL,
     s_needs = [(''hunger'', \<lparr> need_name = ''hunger'', need_value = 10, critical_threshold = 30 \<rparr>)],
     s_stress = 50, s_trust_in_captain = 70, s_memories = [], s_alliances = {},
     s_speaking_ability = 50, s_influence = 50 \<rparr>"

subsection \<open>Python's \<open>max(xs, key=f)\<close>\<close>

text \<open>
  \<open>max\<close> walks the iterable once and replaces the candidate only by a strictly greater
  element, so the first maximal element wins; on an empty iterable it raises ValueError.
\<close>

fun py_max_from :: "('a \<Rightarrow> 'b::linorder) \<Rightarrow> 'a \<Rightarrow> 'a list \<Rightarrow> 'a" where
  "py_max_from key best [] = best"
| "py_max_from key best (x # xs) = py_max_from key (if key best < key x then x else best) xs"

definition py_max_key :: "('a \<Rightarrow> 'b::linorder) \<Rightarrow> 'a list \<Rightarrow> py_error + 'a" where
  "py_max_key key xs = (case xs of [] \<Rightarrow> Inl ValueError | x # ys \<Rightarrow> Inr (py_max_from key x ys))"

subsection \<open>Alliances and the ship\<close>

record Alliance =
  members :: "int set"
  purpose :: string
  strength :: real
  created_day :: int
  broken :: bool

definition Alliance_init :: "int set \<Rightarrow> string \<Rightarrow> real \<Rightarrow> Alliance" where
  "Alliance_init ms p s =
     \<lparr> members = ms, purpose = p, strength = s, created_day = 0, broken = False \<rparr>"

definition add_member :: "Alliance \<Rightarrow> int \<Rightarrow> Alliance" where
  "add_member a char_id = a\<lparr>members := insert char_id (members a), strength := strength a + 5\<rparr>"

definition remove_member :: "Alliance \<Rightarrow> int \<Rightarrow> Alliance" where
  "remove_member a char_id =
     (let a' = a\<lparr>members := members a - {char_id}, strength := strength a - 10\<rparr>
      in if card (members a') < 2 then a'\<lparr>broken := True\<rparr> else a')"

text \<open>
  The state of \<open>Ship\<close> that the modelled operations read or write. The event history, the
  narratives and the philosophical questions are touched by none of them and are left out.
  A character object is referred to by its position in \<open>self.characters\<close>.
\<close>

record Ship =
  day :: int
  temperature :: real
  heading :: int
  danger_level :: real
  captain_authority :: real
  social_cohesion :: real
  philosophical_tension :: real
  characters :: "SCharacter list"
  alliances :: "Alliance list"

text \<open>
  The loop of \<open>_form_alliance\<close> over \<open>self.alliances\<close>: the first alliance that holds
  either id receives both \<open>add_member\<close> calls and the function returns; \<open>None\<close> when the
  loop finds no such alliance.
\<close>

fun fold_into_alliance :: "int \<Rightarrow> int \<Rightarrow> Alliance list \<Rightarrow> Alliance list option" where
  "fold_into_alliance c1 c2 [] = None"
| "fold_into_alliance c1 c2 (a # as) =
     (if c1 \<in> members a \<or> c2 \<in> members a
      then Some (add_member (add_member a c1) c2 # as)
      else map_option ((#) a) (fold_into_alliance c1 c2 as))"

text \<open>
  \<open>_form_alliance(char1, char2)\<close>, the two characters given by position; \<open>p\<close> is the
  purpose text, whose last word the source draws at random.
\<close>

definition form_alliance :: "Ship \<Rightarrow> nat \<Rightarrow> nat \<Rightarrow> string \<Rightarrow> Ship" where
  "form_alliance ship i j p =
     (let c1 = s_id (characters ship ! i);
          c2 = s_id (characters ship ! j);
          cs1 = (characters ship)[i := (characters ship ! i)
                   \<lparr>s_alliances := insert c2 (s_alliances (characters ship ! i))\<rparr>];
          cs2 = cs1[j := (cs1 ! j)\<lparr>s_alliances := insert c1 (s_alliances (cs1 ! j))\<rparr>]
      in case fold_into_alliance c1 c2 (alliances ship) of
           Some as \<Rightarrow> ship\<lparr>characters := cs2, alliances := as\<rparr>
         | None \<Rightarrow>
             ship\<lparr>characters := cs2,
                  alliances := alliances ship @
                    [(Alliance_init {c1, c2} p 50)\<lparr>created_day := day ship\<rparr>]\<rparr>)"

text \<open>
  \<open>_update_alliances\<close>. The random source is a stream \<open>rnd\<close> of draws of \<open>random.random()\<close>
  read from position \<open>n\<close>; \<open>random.uniform(-5, 5)\<close> is \<open>-5 + 10 * random()\<close>.
\<close>

fun update_alliances_loop :: "(nat \<Rightarrow> real) \<Rightarrow> nat \<Rightarrow> Alliance list \<Rightarrow> Alliance list" where
  "update_alliances_loop rnd n [] = []"
| "update_alliances_loop rnd n (a # as) =
     (if broken a then a # update_alliances_loop rnd n as
      else if rnd n < 0.1 then
        (let a' = a\<lparr>strength := strength a + (- 5 + 10 * rnd (n + 1))\<rparr>;
             a'' = (if strength a' < 20 then a'\<lparr>broken := True\<rparr> else a')
         in a'' # update_alliances_loop rnd (n + 2) as)
      else a # update_alliances_loop rnd (n + 1) as)"

definition update_alliances :: "(nat \<Rightarrow> real) \<Rightarrow> nat \<Rightarrow> Ship \<Rightarrow> Ship" where
  "update_alliances rnd n ship = ship\<lparr>alliances := update_alliances_loop rnd n (alliances ship)\<rparr>"

subsection \<open>Mutiny\<close>

definition check_mutiny_conditions :: "Ship \<Rightarrow> bool" where
  "check_mutiny_conditions ship =
     (if captain_authority ship > 40 then False
      else (let revolutionary_count =
                  length (filter (\<lambda>c. s_ideology c \<in> set [REVOLUTIONARY, ANARCHIST] \<and> s_stress c > 70)
                            (characters ship))
            in revolutionary_count \<ge> 3 \<and> danger_level ship > 60))"

definition is_mutineer :: "SCharacter \<Rightarrow> bool" where
  "is_mutineer c = (s_ideology c \<in> set [REVOLUTIONARY, ANARCHIST] \<and> s_role c \<noteq> ''captain'')"

definition mutineers :: "Ship \<Rightarrow> SCharacter list" where
  "mutineers ship = filter is_mutineer (characters ship)"

definition support_count :: "Ship \<Rightarrow> nat" where
  "support_count ship =
     length (filter (\<lambda>c. s_trust_in_captain c < 30 \<and> s_role c \<noteq> ''captain'') (characters ship))"

definition penalize :: "SCharacter \<Rightarrow> SCharacter" where
  "penalize c = c\<lparr>s_stress := s_stress c + 15, s_influence := s_influence c - 10\<rparr>"

text \<open>
  \<open>_attempt_mutiny\<close>. The result is the state the call leaves and the exception it raises,
  if any: on the success branch \<open>captain_authority\<close> is written before
  \<open>max(mutineers, key=...)\<close>, which raises ValueError when there is no mutineer.
\<close>

definition attempt_mutiny :: "Ship \<Rightarrow> Ship \<times> py_error option" where
  "attempt_mutiny ship =
     (if real (support_count ship) > real (length (characters ship)) / 2 then
        (let ship1 = ship\<lparr>captain_authority := 0\<rparr>
         in case py_max_key s_influence (mutineers ship) of
              Inl e \<Rightarrow> (ship1, Some e)
            | Inr new_leader \<Rightarrow> (ship1\<lparr>heading := 180\<rparr>, None))
      else (ship\<lparr>characters := map (\<lambda>c. if is_mutineer c then penalize c else c)
                                  (characters ship)\<rparr>, None))"

text \<open>
  The reading of the specification: the supporters are a majority of the agents that are
  not the incumbent.
\<close>

definition majority_among_non_incumbents :: "Ship \<Rightarrow> bool" where
  "majority_among_non_incumbents ship =
     (2 * support_count ship > length (filter (\<lambda>c. s_role c \<noteq> ''captain'') (characters ship)))"

definition mk_char :: "int \<Rightarrow> string \<Rightarrow> Ideology_ship \<Rightarrow> real \<Rightarrow> SCharacter" where
  "mk_char i r ideo trust =
     \<lparr> s_id = i, s_name = ''c'', s_role = r, s_groups = {WORKERS}, s_ideology = ideo,
       s_needs = [], s_stress = 50, s_trust_in_captain = trust, s_memories = [],
       s_alliances = {}, s_speaking_ability = 50, s_influence = 50 \<rparr>"

definition mk_ship :: "SCharacter list \<Rightarrow> Alliance list \<Rightarrow> Ship" where
  "mk_ship cs as =
     \<lparr> day = 1, temperature = 15, heading = 0, danger_level = 0, captain_authority = 100,
       social_cohesion = 70, philosophical_tension = 30, characters = cs, alliances = as \<rparr>"


definition ship_B :: Ship where
  "ship_B = mk_ship [mk_char 1 ''worker'' LIBERAL 70, mk_char 2 ''worker'' LIBERAL 70,
                     mk_char 3 ''worker'' LIBERAL 70]
              [\<lparr> members = {1, 2}, purpose = ''Shared ideology'', strength = 15,
                 created_day = 1, broken = True \<rparr>]"

definition ship_M :: Ship where
  "ship_M = mk_ship [mk_char 1 ''captain'' AUTHORITARIAN 70, mk_char 2 ''worker'' REVOLUTIONARY 10,
                     mk_char 3 ''worker'' ANARCHIST 10, mk_char 4 ''worker'' LIBERAL 70] []"

definition ship_N :: Ship where
  "ship_N = mk_ship [mk_char 1 ''captain'' AUTHORITARIAN 70, mk_char 2 ''worker'' REVOLUTIONARY 10,
                     mk_char 3 ''worker'' ANARCHIST 10] []"

section \<open>The agent of \<open>character.py\<close> and the social graph of \<open>social_system.py\<close>\<close>

datatype Gender = MALE | FEMALE | NON_BINARY

datatype Ideology =
  Ideology_LIBERAL | Ideology_CONSERVATIVE | Ideology_COMMUNIST | Ideology_ANARCHIST
  | Ideology_NONE

datatype BeliefSystem = ATHEISM | THEISM | SPIRITUALITY | AGNOSTICISM | BeliefSystem_NONE

datatype SocialClass = LOW | MIDDLE | HIGH

datatype PsychologicalState = NORMAL | ANGRY | DEPRESSED | COOPERATIVE | PARANOID

datatype HiddenAgenda = SEEK_POWER | FIND_LOVE | SURVIVE | CREATE_CHAOS | HiddenAgenda_NONE

datatype BigFive = OPENNESS | CONSCIENTIOUSNESS | EXTRAVERSION | AGREEABLENESS | NEUROTICISM

text \<open>
  The instance attributes that \<open>Character.__init__\<close> sets. \<open>age\<close> is an int at
  construction, written as a real since \<open>setattr\<close> may store a float in it. The entries
  of \<open>memory\<close> are dicts, kept as association lists of texts.
\<close>

record Character =
  name :: string
  gender :: Gender
  age :: real
  social_class :: SocialClass
  ethnic_origin :: string
  sexual_orientation :: string
  ideology :: Ideology
  belief_system :: BeliefSystem
  resistance_to_change :: "(string \<times> real) list"
  big_five_traits :: "(BigFive \<times> real) list"
  needs :: "(string \<times> real) list"
  emotions :: "(string \<times> real) list"
  psychological_state :: PsychologicalState
  trauma_points :: real
  psychological_resilience :: real
  hidden_agenda :: HiddenAgenda
  backstory :: "string list"
  memory :: "(string \<times> string) list list"
  health :: real

text \<open>
  \<open>Character.__init__\<close>; \<open>resilience\<close> stands for the draw \<open>random.uniform(0.1, 1.0)\<close>.
\<close>

definition Character_init ::
  "string \<Rightarrow> Gender \<Rightarrow> int \<Rightarrow> SocialClass \<Rightarrow> string \<Rightarrow> string \<Rightarrow> Ideology \<Rightarrow> BeliefSystem
     \<Rightarrow> (BigFive \<times> real) list \<Rightarrow> HiddenAgenda \<Rightarrow> string list \<Rightarrow> real \<Rightarrow> Character" where
  "Character_init nm g a sc eo so ideo bs traits agenda story resilience =
     \<lparr> name = nm, gender = g, age = of_int a, social_class = sc, ethnic_origin = eo,
       sexual_orientation = so, ideology = ideo, belief_system = bs,
       resistance_to_change = [(''ideology'', 0.5), (''belief'', 0.8), (''prejudice'', 0.2)],
       big_five_traits = traits,
       needs = [(''physiological'', 1), (''social'', 1), (''psychological'', 1)],
       emotions = [(''anger'', 0), (''hope'', 0), (''fear'', 0), (''happiness'', 0)],
       psychological_state = NORMAL, trauma_points = 0, psychological_resilience = resilience,
       hidden_agenda = agenda, backstory = story, memory = [], health = 1 \<rparr>"

datatype RelationshipType = FRIENDSHIP | CONFLICT | ROMANTIC | NEUTRAL | ALLIANCE

fun RelationshipType_value :: "RelationshipType \<Rightarrow> string" where
  "RelationshipType_value FRIENDSHIP = ''friendship''"
| "RelationshipType_value CONFLICT = ''conflict''"
| "RelationshipType_value ROMANTIC = ''romantic''"
| "RelationshipType_value NEUTRAL = ''neutral''"
| "RelationshipType_value ALLIANCE = ''alliance''"

text \<open>
  The undirected graph held in \<open>self.social_graph\<close>: the nodes in insertion order, each
  with its \<open>character\<close> attribute, and the edges, each stored once under the pair of its
  end points given in either order, with the attributes \<open>weight\<close> and \<open>rel_type\<close>.
  Logging is not modelled.
\<close>

record edge_data =
  weight :: real
  rel_type :: RelationshipType

record SocialSystem =
  nodes :: "(string \<times> Character) list"
  edges :: "((string \<times> string) \<times> edge_data) list"

definition SocialSystem_init :: SocialSystem where
  "SocialSystem_init = \<lparr> nodes = [], edges = [] \<rparr>"

definition joins :: "string \<times> string \<Rightarrow> string \<Rightarrow> string \<Rightarrow> bool" where
  "joins k u v = (k = (u, v) \<or> k = (v, u))"

definition has_node :: "SocialSystem \<Rightarrow> string \<Rightarrow> bool" where
  "has_node g n = (n \<in> set (map fst (nodes g)))"

definition has_edge :: "SocialSystem \<Rightarrow> string \<Rightarrow> string \<Rightarrow> bool" where
  "has_edge g u v = (\<exists>e \<in> set (edges g). joins (fst e) u v)"

definition add_character :: "SocialSystem \<Rightarrow> Character \<Rightarrow> SocialSystem" where
  "add_character g c =
     (if has_node g (name c) then g else g\<lparr>nodes := nodes g @ [(name c, c)]\<rparr>)"

text \<open>
  \<open>Graph.add_edge(u, v, weight=w, rel_type=t)\<close> between two nodes of the graph: the
  attributes of an existing edge are overwritten, otherwise the edge is added.
\<close>

definition add_edge :: "SocialSystem \<Rightarrow> string \<Rightarrow> string \<Rightarrow> real \<Rightarrow> RelationshipType \<Rightarrow> SocialSystem" where
  "add_edge g u v w t =
     (if has_edge g u v
      then g\<lparr>edges := map (\<lambda>e. if joins (fst e) u v
                                 then (fst e, \<lparr> weight = w, rel_type = t \<rparr>) else e) (edges g)\<rparr>
      else g\<lparr>edges := edges g @ [((u, v), \<lparr> weight = w, rel_type = t \<rparr>)]\<rparr>)"

text \<open>
  \<open>add_relationship\<close>: with an unknown character it logs an error and returns; it raises
  nothing, so the result is always \<open>Inr\<close>.
\<close>

definition add_relationship ::
  "SocialSystem \<Rightarrow> Character \<Rightarrow> Character \<Rightarrow> real \<Rightarrow> RelationshipType \<Rightarrow> py_error + SocialSystem" where
  "add_relationship g character1 character2 initial_strength rt =
     (if \<not> has_node g (name character1) \<or> \<not> has_node g (name character2) then Inr g
      else Inr (add_edge g (name character1) (name character2) initial_strength rt))"

definition interaction_change :: "string \<Rightarrow> real \<times> RelationshipType option" where
  "interaction_change interaction_type =
     (if interaction_type = ''cooperation'' then (0.2, Some FRIENDSHIP)
      else if interaction_type = ''conflict'' then (- 0.3, Some CONFLICT)
      else (0, None))"

definition update_edge :: "real \<Rightarrow> RelationshipType option \<Rightarrow> edge_data \<Rightarrow> edge_data" where
  "update_edge change rel_type_change d =
     (let d1 = d\<lparr>weight := max 0 (min 1 (weight d + change))\<rparr>
      in case rel_type_change of
           Some t \<Rightarrow> if rel_type d = NEUTRAL then d1\<lparr>rel_type := t\<rparr> else d1
         | None \<Rightarrow> d1)"

definition update_relationship ::
  "SocialSystem \<Rightarrow> Character \<Rightarrow> Character \<Rightarrow> string \<Rightarrow> py_error + SocialSystem" where
  "update_relationship g character1 character2 interaction_type =
     (let change = fst (interaction_change interaction_type);
          rel_type_change = snd (interaction_change interaction_type)
      in if has_edge g (name character1) (name character2)
         then Inr (g\<lparr>edges := map (\<lambda>e. if joins (fst e) (name character1) (name character2)
                                         then (fst e, update_edge change rel_type_change (snd e))
                                         else e) (edges g)\<rparr>)
         else add_relationship g character1 character2 (max 0 (min 1 change))
                (case rel_type_change of Some t \<Rightarrow> t | None \<Rightarrow> NEUTRAL))"

definition decay_relationships :: "SocialSystem \<Rightarrow> real \<Rightarrow> SocialSystem" where
  "decay_relationships g decay_rate =
     g\<lparr>edges := filter (\<lambda>e. weight (snd e) \<noteq> 0)
                  (map (\<lambda>e. (fst e, (snd e)\<lparr>weight := max 0 (weight (snd e) - decay_rate)\<rparr>))
                     (edges g))\<rparr>"

definition other_end :: "string \<Rightarrow> string \<times> string \<Rightarrow> string option" where
  "other_end n k = (if fst k = n then Some (snd k) else if snd k = n then Some (fst k) else None)"

text \<open>
  \<open>get_relationships\<close> reads the graph and writes nothing; the result dict is given in
  the order of the neighbours, each with \<open>strength\<close> and \<open>type\<close>.
\<close>

definition get_relationships :: "SocialSystem \<Rightarrow> string \<Rightarrow> (string \<times> real \<times> string) list" where
  "get_relationships g character_name =
     (if \<not> has_node g character_name then []
      else List.map_filter
             (\<lambda>e. map_option (\<lambda>m. (m, weight (snd e), RelationshipType_value (rel_type (snd e))))
                     (other_end character_name (fst e)))
             (edges g))"

text \<open>The degree of a node; a self-loop counts twice.\<close>

definition degree :: "SocialSystem \<Rightarrow> string \<Rightarrow> nat" where
  "degree g n =
     length (filter (\<lambda>e. fst (fst e) = n) (edges g)) + length (filter (\<lambda>e. snd (fst e) = n) (edges g))"

definition influence_score :: "SocialSystem \<Rightarrow> string \<times> Character \<Rightarrow> py_error + string \<times> real" where
  "influence_score g nc =
     (case map_of (big_five_traits (snd nc)) EXTRAVERSION of
        None \<Rightarrow> Inl KeyError
      | Some charisma_score \<Rightarrow> Inr (fst nc, real (degree g (fst nc)) + charisma_score))"

fun collect :: "('a \<Rightarrow> py_error + 'b) \<Rightarrow> 'a list \<Rightarrow> py_error + 'b list" where
  "collect f [] = Inr []"
| "collect f (x # xs) =
     (case f x of Inl e \<Rightarrow> Inl e
      | Inr y \<Rightarrow> (case collect f xs of Inl e \<Rightarrow> Inl e | Inr ys \<Rightarrow> Inr (y # ys)))"

text \<open>
  \<open>get_most_influential_character\<close>. The dict \<open>influencers\<close> has one entry per node, in
  node order; \<open>max(influencers, key=influencers.get)\<close> is the first name of greatest score.
\<close>

definition get_most_influential_character :: "SocialSystem \<Rightarrow> py_error + Character option" where
  "get_most_influential_character g =
     (if nodes g = [] then Inr None
      else case collect (influence_score g) (nodes g) of
             Inl e \<Rightarrow> Inl e
           | Inr influencers \<Rightarrow>
               (case py_max_key snd influencers of
                  Inl e \<Rightarrow> Inl e
                | Inr leader \<Rightarrow>
                    (case map_of (nodes g) (fst leader) of
                       None \<Rightarrow> Inl KeyError
                     | Some c \<Rightarrow> Inr (Some c))))"

text \<open>The score the source computes for a node whose character has the trait.\<close>

definition score_of :: "SocialSystem \<Rightarrow> string \<times> Character \<Rightarrow> real" where
  "score_of g nc =
     real (degree g (fst nc))
       + (case map_of (big_five_traits (snd nc)) EXTRAVERSION of Some x \<Rightarrow> x | None \<Rightarrow> 0)"

definition all_weights_in_unit :: "SocialSystem \<Rightarrow> bool" where
  "all_weights_in_unit g = (\<forall>e \<in> set (edges g). 0 \<le> weight (snd e) \<and> weight (snd e) \<le> 1)"

definition no_zero_edge :: "SocialSystem \<Rightarrow> bool" where
  "no_zero_edge g = (\<forall>e \<in> set (edges g). weight (snd e) \<noteq> 0)"

definition person :: "string \<Rightarrow> real \<Rightarrow> Character" where
  "person nm extraversion =
     Character_init nm FEMALE 30 MIDDLE ''placeholder'' ''placeholder'' Ideology_LIBERAL ATHEISM
       [(OPENNESS, 0.5), (CONSCIENTIOUSNESS, 0.5), (EXTRAVERSION, extraversion),
        (AGREEABLENESS, 0.5), (NEUROTICISM, 0.5)] HiddenAgenda_NONE [] 0.5"

definition two_agents :: SocialSystem where
  "two_agents = add_character (add_character SocialSystem_init (person ''Alice'' 0.3)) (person ''Bob'' 0.6)"

definition conflict_graph :: SocialSystem where
  "conflict_graph = two_agents\<lparr>edges := [((''Alice'', ''Bob''), \<lparr> weight = 0, rel_type = CONFLICT \<rparr>)]\<rparr>"

definition friends :: SocialSystem where
  "friends = two_agents\<lparr>edges := [((''Alice'', ''Bob''), \<lparr> weight = 0.8, rel_type = FRIENDSHIP \<rparr>)]\<rparr>"

definition trio :: SocialSystem where
  "trio = \<lparr> nodes = [(''Alice'', person ''Alice'' 0.3), (''Bob'', person ''Bob'' 0.3),
                     (''Carol'', person ''Carol'' 0.1)],
            edges = [((''Alice'', ''Bob''), \<lparr> weight = 0.8, rel_type = FRIENDSHIP \<rparr>)] \<rparr>"

section \<open>The event system of \<open>event_system.py\<close>\<close>

datatype EventType = NATURAL_DISASTER | MAN_MADE_EVENT | PHILOSOPHICAL_DILEMMA | TECHNICAL_FAILURE

record Event =
  event_name :: string
  description :: string
  event_type :: EventType
  impact :: "(string \<times> real) list"
  event_weight :: real
  severity :: real

definition Event_init :: "string \<Rightarrow> string \<Rightarrow> EventType \<Rightarrow> (string \<times> real) list \<Rightarrow> real \<Rightarrow> Event" where
  "Event_init nm d ty imp w =
     \<lparr> event_name = nm, description = d, event_type = ty, impact = imp, event_weight = w,
       severity = 1 \<rparr>"

definition predefined_events :: "Event list" where
  "predefined_events =
     [Event_init ''Food Shortage''
        ''Food supplies on the ship are running out faster than expected. Tensions are rising among people.''
        NATURAL_DISASTER
        [(''hunger_increase'', 0.5), (''cooperation_decrease'', 0.2), (''conflict_increase'', 0.3)]
        3,
      Event_init ''Silent Rebellion''
        ''A group of characters secretly begins to sabotage, believing the leadership is not fair.''
        MAN_MADE_EVENT
        [(''trust_decrease'', 0.4), (''rebellion_chance_increase'', 0.5)]
        1,
      Event_init ''Technological Breakdown''
        ''A serious malfunction has occurred in the reactor providing power to the ship. Volunteers are needed for repairs.''
        TECHNICAL_FAILURE
        [(''stress_increase'', 0.3), (''cooperation_chance_increase'', 0.4)]
        2,
      Event_init ''Philosophical Dilemma''
        ''Only one more person can board the ship. Should this last person be allowed on board, or should community morals take precedence?''
        PHILOSOPHICAL_DILEMMA
        [(''moral_distress_increase'', 0.6), (''cooperation_decrease'', 0.1)]
        0.5]"

subsection \<open>The string methods \<open>endswith\<close> and \<open>replace(old, '')\<close>\<close>

fun startswith :: "string \<Rightarrow> string \<Rightarrow> bool" where
  "startswith s [] = True"
| "startswith [] (p # ps) = False"
| "startswith (c # cs) (p # ps) = (c = p \<and> startswith cs ps)"

definition endswith :: "string \<Rightarrow> string \<Rightarrow> bool" where
  "endswith s suffix = startswith (rev s) (rev suffix)"

text \<open>
  \<open>s.replace(old, '')\<close>: the occurrences of \<open>old\<close> are removed from left to right
  without overlap; \<open>k\<close> counts the characters of a matched occurrence still to be
  dropped. With an empty \<open>old\<close> the string is returned as it is.
\<close>

fun remove_from :: "string \<Rightarrow> nat \<Rightarrow> string \<Rightarrow> string" where
  "remove_from old k [] = []"
| "remove_from old k (c # cs) =
     (if 0 < k then remove_from old (k - 1) cs
      else if old \<noteq> [] \<and> startswith (c # cs) old then remove_from old (length old - 1) cs
      else c # remove_from old 0 cs)"

definition replace_by_empty :: "string \<Rightarrow> string \<Rightarrow> string" where
  "replace_by_empty s old = remove_from old 0 s"

subsection \<open>Attribute access on a \<open>Character\<close>\<close>

text \<open>
  What \<open>getattr\<close> finds on an instance that has the attributes set by \<open>__init__\<close>:
  a number, or an object that is no number (a text, an enum member, a dict, a list, a
  bound method, or a member that every object has).
\<close>

datatype py_value = Num real | NonNum

definition other_instance_attributes :: "string list" where
  "other_instance_attributes =
     [''name'', ''gender'', ''social_class'', ''ethnic_origin'', ''sexual_orientation'',
      ''ideology'', ''belief_system'', ''resistance_to_change'', ''big_five_traits'', ''needs'',
      ''emotions'', ''psychological_state'', ''hidden_agenda'', ''backstory'', ''memory'']"

definition method_names :: "string list" where
  "method_names =
     [''update_needs'', ''_update_psychological_state'', ''_calculate_influence'',
      ''make_decision'', ''interact_with'', ''change_ideology'', ''perceive_event'',
      ''get_memories'']"

definition object_members :: "string list" where
  "object_members =
     [''__class__'', ''__delattr__'', ''__dict__'', ''__dir__'', ''__doc__'', ''__eq__'',
      ''__format__'', ''__ge__'', ''__getattribute__'', ''__getstate__'', ''__gt__'',
      ''__hash__'', ''__init__'', ''__init_subclass__'', ''__le__'', ''__lt__'', ''__module__'',
      ''__ne__'', ''__new__'', ''__reduce__'', ''__reduce_ex__'', ''__repr__'', ''__setattr__'',
      ''__sizeof__'', ''__str__'', ''__subclasshook__'', ''__weakref__'']"

definition getattr :: "Character \<Rightarrow> string \<Rightarrow> py_error + py_value" where
  "getattr c a =
     (if a = ''age'' then Inr (Num (age c))
      else if a = ''trauma_points'' then Inr (Num (trauma_points c))
      else if a = ''psychological_resilience'' then Inr (Num (psychological_resilience c))
      else if a = ''health'' then Inr (Num (health c))
      else if a \<in> set (other_instance_attributes @ method_names @ object_members) then Inr NonNum
      else Inl AttributeError)"

text \<open>
  \<open>setattr\<close> of a number; \<open>apply_event_impact\<close> calls it only after \<open>getattr\<close> of the same
  name has returned a number, so only the four numeric attributes are ever written.
\<close>

definition setattr :: "Character \<Rightarrow> string \<Rightarrow> real \<Rightarrow> Character" where
  "setattr c a v =
     (if a = ''age'' then c\<lparr>age := v\<rparr>
      else if a = ''trauma_points'' then c\<lparr>trauma_points := v\<rparr>
      else if a = ''psychological_resilience'' then c\<lparr>psychological_resilience := v\<rparr>
      else if a = ''health'' then c\<lparr>health := v\<rparr>
      else c)"

text \<open>The member of the enum \<open>PsychologicalState\<close> of a given name.\<close>

definition PsychologicalState_member :: "string \<Rightarrow> py_error + PsychologicalState" where
  "PsychologicalState_member a =
     (if a = ''NORMAL'' then Inr NORMAL
      else if a = ''ANGRY'' then Inr ANGRY
      else if a = ''DEPRESSED'' then Inr DEPRESSED
      else if a = ''COOPERATIVE'' then Inr COOPERATIVE
      else if a = ''PARANOID'' then Inr PARANOID
      else Inl AttributeError)"

subsection \<open>\<open>apply_event_impact\<close>\<close>

text \<open>
  A call returns the state it leaves and the exception it raises, if any. The inner loop
  over \<open>event.impact.items()\<close>, for one character:
\<close>

definition adjust :: "Character \<Rightarrow> string \<Rightarrow> real \<Rightarrow> Character \<times> py_error option" where
  "adjust c attr_name delta =
     (case getattr c attr_name of
        Inl e \<Rightarrow> (c, Some e)
      | Inr NonNum \<Rightarrow> (c, Some TypeError)
      | Inr (Num current_value) \<Rightarrow>
          (setattr c attr_name (max 0 (min 1 (current_value + delta))), None))"

fun apply_effects :: "Character \<Rightarrow> real \<Rightarrow> (string \<times> real) list \<Rightarrow> Character \<times> py_error option" where
  "apply_effects c sev [] = (c, None)"
| "apply_effects c sev ((effect, v) # rest) =
     (if endswith effect ''_increase'' then
        (case adjust c (replace_by_empty effect ''_increase'') (v * sev) of
           (c', Some e) \<Rightarrow> (c', Some e)
         | (c', None) \<Rightarrow> apply_effects c' sev rest)
      else if endswith effect ''_decrease'' then
        (case adjust c (replace_by_empty effect ''_decrease'') (- (v * sev)) of
           (c', Some e) \<Rightarrow> (c', Some e)
         | (c', None) \<Rightarrow> apply_effects c' sev rest)
      else apply_effects c sev rest)"

text \<open>
  The chain of tests on the psychological state. Each test first evaluates the enum
  member it compares with; each branch first reads \<open>char.cooperation_chance\<close> (the last
  one \<open>char.rebellion_chance\<close>), which no \<open>Character\<close> has, so a branch that could be
  entered would stop at that read.
\<close>

definition read_chance :: "Character \<Rightarrow> string \<Rightarrow> Character \<times> py_error option" where
  "read_chance c a = (case getattr c a of Inl e \<Rightarrow> (c, Some e) | Inr _ \<Rightarrow> (c, None))"

fun state_tests :: "Character \<Rightarrow> (string \<times> string) list \<Rightarrow> Character \<times> py_error option" where
  "state_tests c [] = (c, None)"
| "state_tests c ((member, first_read) # rest) =
     (case PsychologicalState_member member of
        Inl e \<Rightarrow> (c, Some e)
      | Inr s \<Rightarrow> if psychological_state c = s then read_chance c first_read
                 else state_tests c rest)"

definition apply_state_impact :: "Character \<Rightarrow> Character \<times> py_error option" where
  "apply_state_impact c =
     state_tests c [(''ANXIOUS'', ''cooperation_chance''), (''CALM'', ''cooperation_chance''),
                    (''DEPRESSED'', ''cooperation_chance''), (''AGGRESSIVE'', ''rebellion_chance'')]"

fun apply_event_impact :: "Character list \<Rightarrow> Event \<Rightarrow> Character list \<times> py_error option" where
  "apply_event_impact [] event = ([], None)"
| "apply_event_impact (c # cs) event =
     (case apply_effects c (severity event) (impact event) of
        (c1, Some e) \<Rightarrow> (c1 # cs, Some e)
      | (c1, None) \<Rightarrow>
          (case apply_state_impact c1 of
             (c2, Some e) \<Rightarrow> (c2 # cs, Some e)
           | (c2, None) \<Rightarrow>
               (case apply_event_impact cs event of (cs', r) \<Rightarrow> (c2 # cs', r))))"

text \<open>The attribute that an impact key names.\<close>

definition attribute_of :: "string \<Rightarrow> string" where
  "attribute_of effect =
     (if endswith effect ''_increase'' then replace_by_empty effect ''_increase''
      else replace_by_empty effect ''_decrease'')"

section \<open>The leadership system of \<open>src/systems/leadership_system.py\<close>\<close>

record MMemory = Memory +
  believed_responsible :: "int set"

text \<open>The dataclass \<open>Character\<close> of \<open>src/models/character.py\<close>.\<close>

record MCharacter =
  m_id :: int
  m_name :: string
  m_role :: string
  m_groups :: "GroupIdentity set"
  m_ideology :: Ideology_ship
  m_needs :: "(string \<times> Need) list"
  m_stress :: real
  m_trust_in_captain :: real
  m_memories :: "MMemory list"
  m_alliances :: "int set"
  m_speaking_ability :: real
  m_influence :: real
  is_spokesperson :: bool

text \<open>
  The characters are objects shared by the list of characters, the groups and the
  captain reference. They live in a store \<open>objs\<close>, and a reference is a position in it.
\<close>

record Group =
  identity :: GroupIdentity
  group_members :: "(int \<times> nat) list"
  spokesperson :: "nat option"

record LeadershipSystem =
  objs :: "MCharacter list"
  ls_characters :: "nat list"
  groups :: "Group list"
  captain :: "nat option"

definition get_captain :: "MCharacter list \<Rightarrow> nat list \<Rightarrow> nat option" where
  "get_captain os cs = find (\<lambda>r. m_role (os ! r) = ''captain'') cs"

definition LeadershipSystem_init :: "MCharacter list \<Rightarrow> nat list \<Rightarrow> Group list \<Rightarrow> LeadershipSystem" where
  "LeadershipSystem_init os cs gs =
     \<lparr> objs = os, ls_characters = cs, groups = gs, captain = get_captain os cs \<rparr>"

text \<open>
  The spokespersons of the groups whose id differs from the captain's; a dataclass
  instance is always true, so \<open>if g.spokesperson\<close> tests for \<open>None\<close> only.
\<close>

definition candidates :: "LeadershipSystem \<Rightarrow> nat \<Rightarrow> nat list" where
  "candidates sys cap =
     filter (\<lambda>r. m_id (objs sys ! r) \<noteq> m_id (objs sys ! cap))
       (List.map_filter spokesperson (groups sys))"

text \<open>
  \<open>Character\<close> is declared with a plain \<open>@dataclass\<close>, which generates \<open>__eq__\<close> and, the
  class being neither frozen nor given \<open>unsafe_hash\<close>, sets \<open>__hash__\<close> to \<open>None\<close>: hashing
  an instance raises TypeError.
\<close>

definition hash_Character :: "MCharacter \<Rightarrow> py_error + int" where
  "hash_Character c = Inl TypeError"

text \<open>
  The dict comprehension \<open>{char: char.influence for char in candidates}\<close>, which hashes
  each candidate as it is stored as a key.
\<close>

fun power_scores :: "MCharacter list \<Rightarrow> nat list \<Rightarrow> py_error + (nat \<times> real) list" where
  "power_scores os [] = Inr []"
| "power_scores os (r # rs) =
     (case hash_Character (os ! r) of
        Inl e \<Rightarrow> Inl e
      | Inr h \<Rightarrow>
          (case power_scores os rs of
             Inl e \<Rightarrow> Inl e
           | Inr ps \<Rightarrow> Inr ((r, m_influence (os ! r)) # ps)))"

definition depose :: "LeadershipSystem \<Rightarrow> nat \<Rightarrow> nat \<Rightarrow> LeadershipSystem" where
  "depose sys cap new_leader =
     (let os1 = (objs sys)[cap := (objs sys ! cap)\<lparr>m_role := ''deposed''\<rparr>];
          os2 = os1[new_leader := (os1 ! new_leader)\<lparr>m_role := ''captain''\<rparr>]
      in sys\<lparr>objs := os2, captain := Some new_leader\<rparr>)"

text \<open>
  \<open>check_for_leadership_change\<close>: the state the call leaves and the exception it raises,
  if any.
\<close>

definition check_for_leadership_change :: "LeadershipSystem \<Rightarrow> LeadershipSystem \<times> py_error option" where
  "check_for_leadership_change sys =
     (case captain sys of
        None \<Rightarrow> (sys, None)
      | Some cap \<Rightarrow>
          if m_trust_in_captain (objs sys ! cap) < 40 then
            (if candidates sys cap = [] then (sys, None)
             else case power_scores (objs sys) (candidates sys cap) of
                    Inl e \<Rightarrow> (sys, Some e)
                  | Inr scores \<Rightarrow>
                      if scores = [] then (sys, None)
                      else (case py_max_key snd scores of
                              Inl e \<Rightarrow> (sys, Some e)
                            | Inr leader \<Rightarrow>
                                if m_influence (objs sys ! fst leader)
                                     > m_influence (objs sys ! cap)
                                       + m_trust_in_captain (objs sys ! cap)
                                then (depose sys cap (fst leader), None)
                                else (sys, None)))
          else (sys, None))"

definition mk_mchar :: "int \<Rightarrow> string \<Rightarrow> real \<Rightarrow> real \<Rightarrow> MCharacter" where
  "mk_mchar i r infl trust =
     \<lparr> m_id = i, m_name = ''c'', m_role = r, m_groups = {WORKERS}, m_ideology = REFORMIST,
       m_needs = [], m_stress = 50, m_trust_in_captain = trust, m_memories = [],
       m_alliances = {}, m_speaking_ability = 50, m_influence = infl, is_spokesperson = False \<rparr>"

text \<open>
  The scenario: a captain of influence 50 whose trust stands at 35, and one challenger,
  the spokesperson of the workers, of influence 60.
\<close>

definition weak_captain :: LeadershipSystem where
  "weak_captain =
     LeadershipSystem_init [mk_mchar 1 ''captain'' 50 35, mk_mchar 2 ''worker'' 60 70] [0, 1]
       [\<lparr> identity = WORKERS, group_members = [(2, 1)], spokesperson = Some 1 \<rparr>]"

text \<open>The same with a challenger of influence 200, above the margin of 50 + 35.\<close>

definition strong_challenger :: LeadershipSystem where
  "strong_challenger =
     LeadershipSystem_init [mk_mchar 1 ''captain'' 50 35, mk_mchar 2 ''worker'' 200 70] [0, 1]
       [\<lparr> identity = WORKERS, group_members = [(2, 1)], spokesperson = Some 1 \<rparr>]"

text \<open>
  The shape of a graph built by the operations: each node under its own name, no pair
  of agents stored twice among the edges, and every edge between two nodes.
\<close>

definition edge_keys :: "SocialSystem \<Rightarrow> (string \<times> string) list" where
  "edge_keys g = map fst (edges g)"

definition wf_graph :: "SocialSystem \<Rightarrow> bool" where
  "wf_graph g =
     (distinct (map fst (nodes g))
      \<and> distinct (map (\<lambda>k. {fst k, snd k}) (edge_keys g))
      \<and> (\<forall>k \<in> set (edge_keys g). has_node g (fst k) \<and> has_node g (snd k)))"

section \<open>Properties of the needs of an agent\<close>

lemma update_need_entry_keys: "map fst (update_need_entry k d ns) = map fst ns"
  by (induction ns) auto

lemma update_need_entry_absent:
  "k \<notin> set (map fst ns) \<Longrightarrow> update_need_entry k d ns = ns"
  by (induction ns) auto

lemma map_of_update_need_entry:
  "map_of (update_need_entry k d ns) k' =
     (if k' = k
      then map_option (\<lambda>n. n\<lparr>need_value := min 100 (max 0 (need_value n + d))\<rparr>) (map_of ns k)
      else map_of ns k')"
  by (induction ns) auto

lemma update_need_keys: "map fst (s_needs (update_need c kd)) = map fst (s_needs c)"
  by (simp add: update_need_def update_need_entry_keys)

lemma update_need_frame: "update_need c kd = c\<lparr>s_needs := s_needs (update_need c kd)\<rparr>"
  by (simp add: update_need_def)

lemma map_of_update_need:
  "map_of (s_needs (update_need c (k, d))) k' =
     (if k' = k
      then map_option (\<lambda>n. n\<lparr>need_value := min 100 (max 0 (need_value n + d))\<rparr>)
             (map_of (s_needs c) k)
      else map_of (s_needs c) k')"
proof (cases "k \<in> set (map fst (s_needs c))")
  case True
  then show ?thesis by (simp add: update_need_def map_of_update_need_entry)
next
  case False
  then have "map_of (s_needs c) k = None" by (simp add: map_of_eq_None_iff)
  with False show ?thesis by (simp add: update_need_def)
qed

lemma update_needs_keys: "map fst (s_needs (update_needs c changes)) = map fst (s_needs c)"
  unfolding update_needs_def
  by (induction changes arbitrary: c) (simp_all add: update_need_keys)

lemma update_needs_frame:
  "update_needs c changes = c\<lparr>s_needs := s_needs (update_needs c changes)\<rparr>"
  unfolding update_needs_def
proof (induction changes arbitrary: c)
  case Nil
  show ?case by simp
next
  case (Cons kd changes)
  have "foldl update_need (update_need c kd) changes =
        (update_need c kd)\<lparr>s_needs := s_needs (foldl update_need (update_need c kd) changes)\<rparr>"
    by (rule Cons.IH)
  also have "\<dots> = c\<lparr>s_needs := s_needs (foldl update_need (update_need c kd) changes)\<rparr>"
    by (subst update_need_frame) simp
  finally show ?case by simp
qed

lemma update_needs_unknown:
  "\<forall>k \<in> set (map fst changes). k \<notin> set (map fst (s_needs c)) \<Longrightarrow> update_needs c changes = c"
  unfolding update_needs_def
  by (induction changes arbitrary: c) (simp_all add: update_need_def)

lemma map_of_update_needs:
  "distinct (map fst changes) \<Longrightarrow>
   map_of (s_needs (update_needs c changes)) k =
     map_option (\<lambda>n. case map_of changes k of None \<Rightarrow> n
                    | Some d \<Rightarrow> n\<lparr>need_value := min 100 (max 0 (need_value n + d))\<rparr>)
       (map_of (s_needs c) k)"
  unfolding update_needs_def
proof (induction changes arbitrary: c)
  case Nil
  show ?case by (simp add: option.map_ident)
next
  case (Cons kd changes)
  obtain k0 d0 where kd: "kd = (k0, d0)" by (cases kd)
  from Cons.prems kd have dist: "distinct (map fst changes)" and fresh: "k0 \<notin> fst ` set changes"
    by simp_all
  have IH: "map_of (s_needs (foldl update_need (update_need c (k0, d0)) changes)) k =
     map_option (\<lambda>n. case map_of changes k of None \<Rightarrow> n
                    | Some d \<Rightarrow> n\<lparr>need_value := min 100 (max 0 (need_value n + d))\<rparr>)
       (map_of (s_needs (update_need c (k0, d0))) k)"
    by (rule Cons.IH [OF dist])
  show ?case
  proof (cases "k = k0")
    case True
    with fresh have "map_of changes k = None" by (simp add: map_of_eq_None_iff)
    with True IH kd show ?thesis
      by (simp add: map_of_update_need option.map_comp o_def option.map_ident)
  next
    case False
    with IH kd show ?thesis by (simp add: map_of_update_need)
  qed
qed

text \<open>
  C7. \<open>update_needs\<close> keeps the needs and their order, adds each named delta to the need
  of that name and clamps the sum to the range 0 to 100 whatever the delta; a delta whose
  name is no need of the agent is ignored, and a mapping of such deltas only leaves the
  agent as it was; nothing but the needs changes. For the agent whose only need is hunger
  at 10 with threshold 30, \<open>get_critical_needs\<close> is \<open>[hunger]\<close>; after a delta of 25 the
  value is 35 and \<open>get_critical_needs\<close> is empty.
\<close>

theorem C7_update_needs:
  assumes "distinct (map fst changes)"
  shows "map fst (s_needs (update_needs c changes)) = map fst (s_needs c)
    \<and> (\<forall>k n. map_of (s_needs c) k = Some n \<longrightarrow>
          (case map_of changes k of
             None \<Rightarrow> map_of (s_needs (update_needs c changes)) k = Some n
           | Some d \<Rightarrow>
               map_of (s_needs (update_needs c changes)) k =
                 Some (n\<lparr>need_value := min 100 (max 0 (need_value n + d))\<rparr>)
               \<and> 0 \<le> min 100 (max 0 (need_value n + d))
               \<and> min 100 (max 0 (need_value n + d)) \<le> (100::real)))
    \<and> update_needs c changes = c\<lparr>s_needs := s_needs (update_needs c changes)\<rparr>
    \<and> ((\<forall>k \<in> set (map fst changes). k \<notin> set (map fst (s_needs c))) \<longrightarrow>
          update_needs c changes = c)
    \<and> get_critical_needs agent_X = [''hunger'']
    \<and> map (\<lambda>kn. (fst kn, need_value (snd kn))) (s_needs (update_needs agent_X [(''hunger'', 25)]))
          = [(''hunger'', 35)]
    \<and> get_critical_needs (update_needs agent_X [(''hunger'', 25)]) = []"
proof -
  have keys: "map fst (s_needs (update_needs c changes)) = map fst (s_needs c)"
    by (rule update_needs_keys)
  have vals: "\<forall>k n. map_of (s_needs c) k = Some n \<longrightarrow>
          (case map_of changes k of
             None \<Rightarrow> map_of (s_needs (update_needs c changes)) k = Some n
           | Some d \<Rightarrow>
               map_of (s_needs (update_needs c changes)) k =
                 Some (n\<lparr>need_value := min 100 (max 0 (need_value n + d))\<rparr>)
               \<and> 0 \<le> min 100 (max 0 (need_value n + d))
               \<and> min 100 (max 0 (need_value n + d)) \<le> (100::real))"
    by (simp add: map_of_update_needs [OF assms] split: option.split)
  have frame: "update_needs c changes = c\<lparr>s_needs := s_needs (update_needs c changes)\<rparr>"
    by (rule update_needs_frame)
  have unknown: "(\<forall>k \<in> set (map fst changes). k \<notin> set (map fst (s_needs c))) \<longrightarrow>
          update_needs c changes = c"
    using update_needs_unknown by blast
  have s1: "get_critical_needs agent_X = [''hunger'']"
    by (simp add: get_critical_needs_def agent_X_def is_critical_def)
  have s2: "map (\<lambda>kn. (fst kn, need_value (snd kn)))
              (s_needs (update_needs agent_X [(''hunger'', 25)])) = [(''hunger'', 35)]"
    by (simp add: update_needs_def update_need_def agent_X_def)
  have s3: "get_critical_needs (update_needs agent_X [(''hunger'', 25)]) = []"
    by (simp add: get_critical_needs_def update_needs_def update_need_def agent_X_def
        is_critical_def)
  from keys vals frame unknown s1 s2 s3 show ?thesis by blast
qed

theorem C7_update_needs_witness:
  "distinct (map fst [(''hunger'', 250::real)])
   \<and> map_of (s_needs (update_needs agent_X [(''hunger'', 250)])) ''hunger''
       = Some \<lparr> need_name = ''hunger'', need_value = 100, critical_threshold = 30 \<rparr>
   \<and> update_needs agent_X [(''thirst'', 5)] = agent_X"
proof -
  have d1: "distinct (map fst [(''hunger'', 250::real)])" by simp
  have d2: "distinct (map fst [(''thirst'', 5::real)])" by simp
  have n: "map_of (s_needs agent_X) ''hunger''
      = Some \<lparr> need_name = ''hunger'', need_value = 10, critical_threshold = 30 \<rparr>"
    by (simp add: agent_X_def)
  have u: "\<forall>k \<in> set (map fst [(''thirst'', 5::real)]). k \<notin> set (map fst (s_needs agent_X))"
    by (simp add: agent_X_def)
  from C7_update_needs [OF d1, of agent_X]
  have "\<forall>k n. map_of (s_needs agent_X) k = Some n \<longrightarrow>
          (case map_of [(''hunger'', 250::real)] k of
             None \<Rightarrow> map_of (s_needs (update_needs agent_X [(''hunger'', 250)])) k = Some n
           | Some d \<Rightarrow>
               map_of (s_needs (update_needs agent_X [(''hunger'', 250)])) k =
                 Some (n\<lparr>need_value := min 100 (max 0 (need_value n + d))\<rparr>)
               \<and> 0 \<le> min 100 (max 0 (need_value n + d))
               \<and> min 100 (max 0 (need_value n + d)) \<le> (100::real))"
    by (rule conjunct1 [OF conjunct2])
  from this [rule_format, OF n]
  have "map_of (s_needs (update_needs agent_X [(''hunger'', 250)])) ''hunger''
       = Some \<lparr> need_name = ''hunger'', need_value = 100, critical_threshold = 30 \<rparr>"
    by simp
  moreover from C7_update_needs [OF d2, of agent_X] u
  have "update_needs agent_X [(''thirst'', 5)] = agent_X" by blast
  ultimately show ?thesis using d1 by blast
qed

section \<open>Alliances\<close>







text \<open>
  C6. A broken alliance should stay as it is for the rest of the run. \<open>_update_alliances\<close>
  skips broken alliances, but \<open>_form_alliance\<close> does not look at the flag: forming an
  alliance between a member of a broken alliance and a third agent adds both ids to the
  broken alliance and raises its strength by 10.
\<close>

theorem C6_form_alliance_changes_broken_alliance:
  "broken (alliances ship_B ! 0)
   \<and> alliances (form_alliance ship_B 0 2 ''Shared identity'') =
     [\<lparr> members = {1, 2, 3}, purpose = ''Shared ideology'', strength = 25,
        created_day = 1, broken = True \<rparr>]"
  by (simp add: ship_B_def mk_ship_def mk_char_def form_alliance_def add_member_def
      insert_commute)

lemma update_alliances_loop_length:
  "length (update_alliances_loop rnd n as) = length as"
  by (induction as arbitrary: n) (simp_all add: Let_def)

lemma update_alliances_loop_broken:
  "k < length as \<Longrightarrow> broken (as ! k) \<Longrightarrow> update_alliances_loop rnd n as ! k = as ! k"
proof (induction as arbitrary: n k)
  case Nil
  then show ?case by simp
next
  case (Cons a as)
  show ?case
  proof (cases k)
    case 0
    with Cons.prems show ?thesis by simp
  next
    case (Suc k')
    with Cons.prems have "k' < length as" "broken (as ! k')" by simp_all
    then have "\<And>n. update_alliances_loop rnd n as ! k' = as ! k'" by (rule Cons.IH)
    with Suc show ?thesis by (simp add: Let_def)
  qed
qed

section \<open>Mutiny\<close>

lemma support_majority_iff:
  "(real (support_count ship) > real (length (characters ship)) / 2)
     \<longleftrightarrow> length (characters ship) < 2 * support_count ship"
proof -
  have "(real (length (characters ship)) / 2 < real (support_count ship))
      \<longleftrightarrow> real (length (characters ship)) < real (2 * support_count ship)"
    by (simp add: field_simps)
  also have "\<dots> \<longleftrightarrow> length (characters ship) < 2 * support_count ship"
    by (simp only: of_nat_less_iff)
  finally show ?thesis .
qed

lemma py_max_key_Nil_iff: "(\<exists>e. py_max_key key xs = Inl e) \<longleftrightarrow> xs = []"
  by (cases xs) (simp_all add: py_max_key_def)

text \<open>
  C2, as stated. With a captain and three others of whom two distrust the captain, the
  supporters are a majority of the agents that are not the incumbent, and yet the mutiny
  fails: the source compares the support count with half of all agents, the captain
  included.
\<close>

theorem C2_mutiny_majority_counterexample:
  "majority_among_non_incumbents ship_M
   \<and> attempt_mutiny ship_M =
       (ship_M\<lparr>characters := [mk_char 1 ''captain'' AUTHORITARIAN 70,
                               penalize (mk_char 2 ''worker'' REVOLUTIONARY 10),
                               penalize (mk_char 3 ''worker'' ANARCHIST 10),
                               mk_char 4 ''worker'' LIBERAL 70]\<rparr>, None)
   \<and> captain_authority (fst (attempt_mutiny ship_M)) = 100
   \<and> heading (fst (attempt_mutiny ship_M)) = 0"
  by (simp add: majority_among_non_incumbents_def attempt_mutiny_def support_count_def
      ship_M_def mk_ship_def mk_char_def is_mutineer_def)

text \<open>
  C2, amended. The mutiny succeeds exactly when the agents other than the captain whose
  trust in the captain is below 30 are more than half of all agents. Then the captain's
  authority is set to zero, no character changes and, when there is at least one mutineer
  (a revolutionary or anarchist who is not the captain), the heading is set to 180.
  Otherwise the authority, the heading and every role stay as they are, each mutineer's
  stress rises by 15 and influence falls by 10, and every other character is unchanged.
\<close>

theorem C2_attempt_mutiny:
  "(length (characters ship) < 2 * support_count ship \<longrightarrow>
      captain_authority (fst (attempt_mutiny ship)) = 0
      \<and> characters (fst (attempt_mutiny ship)) = characters ship
      \<and> (mutineers ship \<noteq> [] \<longrightarrow>
           attempt_mutiny ship = (ship\<lparr>captain_authority := 0, heading := 180\<rparr>, None)))
   \<and> (\<not> length (characters ship) < 2 * support_count ship \<longrightarrow>
      attempt_mutiny ship =
        (ship\<lparr>characters := map (\<lambda>c. if is_mutineer c then penalize c else c) (characters ship)\<rparr>,
         None)
      \<and> captain_authority (fst (attempt_mutiny ship)) = captain_authority ship
      \<and> heading (fst (attempt_mutiny ship)) = heading ship
      \<and> map s_role (characters (fst (attempt_mutiny ship))) = map s_role (characters ship)
      \<and> (\<forall>k < length (characters ship).
            characters (fst (attempt_mutiny ship)) ! k =
              (if s_ideology (characters ship ! k) \<in> {REVOLUTIONARY, ANARCHIST}
                  \<and> s_role (characters ship ! k) \<noteq> ''captain''
               then (characters ship ! k)
                      \<lparr>s_stress := s_stress (characters ship ! k) + 15,
                       s_influence := s_influence (characters ship ! k) - 10\<rparr>
               else characters ship ! k)))"
proof (cases "length (characters ship) < 2 * support_count ship")
  case True
  then have maj: "real (support_count ship) > real (length (characters ship)) / 2"
    using support_majority_iff by blast
  have a: "captain_authority (fst (attempt_mutiny ship)) = 0"
    using maj by (simp add: attempt_mutiny_def Let_def split: sum.split)
  have b: "characters (fst (attempt_mutiny ship)) = characters ship"
    using maj by (simp add: attempt_mutiny_def Let_def split: sum.split)
  have c: "attempt_mutiny ship = (ship\<lparr>captain_authority := 0, heading := 180\<rparr>, None)"
    if "mutineers ship \<noteq> []"
  proof -
    from that obtain x xs where "mutineers ship = x # xs" by (cases "mutineers ship") auto
    then show ?thesis using maj by (simp add: attempt_mutiny_def Let_def py_max_key_def)
  qed
  from True a b c show ?thesis by blast
next
  case False
  then have nmaj: "\<not> real (support_count ship) > real (length (characters ship)) / 2"
    using support_majority_iff by blast
  have r: "attempt_mutiny ship =
        (ship\<lparr>characters := map (\<lambda>c. if is_mutineer c then penalize c else c) (characters ship)\<rparr>,
         None)"
    using nmaj by (simp add: attempt_mutiny_def)
  have roles: "map s_role (map (\<lambda>c. if is_mutineer c then penalize c else c) (characters ship))
      = map s_role (characters ship)"
    by (simp add: penalize_def)
  have each: "\<forall>k < length (characters ship).
            map (\<lambda>c. if is_mutineer c then penalize c else c) (characters ship) ! k =
              (if s_ideology (characters ship ! k) \<in> {REVOLUTIONARY, ANARCHIST}
                  \<and> s_role (characters ship ! k) \<noteq> ''captain''
               then (characters ship ! k)
                      \<lparr>s_stress := s_stress (characters ship ! k) + 15,
                       s_influence := s_influence (characters ship ! k) - 10\<rparr>
               else characters ship ! k)"
    by (simp add: is_mutineer_def penalize_def)
  have f: "fst (attempt_mutiny ship) =
      ship\<lparr>characters := map (\<lambda>c. if is_mutineer c then penalize c else c) (characters ship)\<rparr>"
    by (simp add: r)
  have auth: "captain_authority (fst (attempt_mutiny ship)) = captain_authority ship"
    and head: "heading (fst (attempt_mutiny ship)) = heading ship"
    and chars: "characters (fst (attempt_mutiny ship)) =
      map (\<lambda>c. if is_mutineer c then penalize c else c) (characters ship)"
    by (simp_all add: f)
  from False r auth head roles each show ?thesis
    unfolding chars by blast
qed

theorem C2_attempt_mutiny_witness:
  "attempt_mutiny ship_N = (ship_N\<lparr>captain_authority := 0, heading := 180\<rparr>, None)
   \<and> captain_authority (fst (attempt_mutiny ship_M)) = captain_authority ship_M
   \<and> s_stress (characters (fst (attempt_mutiny ship_M)) ! 1) = 65
   \<and> s_influence (characters (fst (attempt_mutiny ship_M)) ! 1) = 40
   \<and> characters (fst (attempt_mutiny ship_M)) ! 3 = characters ship_M ! 3"
proof -
  have maj: "length (characters ship_N) < 2 * support_count ship_N"
    by (simp add: ship_N_def mk_ship_def mk_char_def support_count_def)
  have mut: "mutineers ship_N \<noteq> []"
    by (simp add: ship_N_def mk_ship_def mk_char_def mutineers_def is_mutineer_def)
  from C2_attempt_mutiny [of ship_N] maj mut
  have s: "attempt_mutiny ship_N = (ship_N\<lparr>captain_authority := 0, heading := 180\<rparr>, None)"
    by blast
  have nmaj: "\<not> length (characters ship_M) < 2 * support_count ship_M"
    by (simp add: ship_M_def mk_ship_def mk_char_def support_count_def)
  from C2_attempt_mutiny [of ship_M] nmaj
  have auth: "captain_authority (fst (attempt_mutiny ship_M)) = captain_authority ship_M"
    and each: "\<forall>k < length (characters ship_M).
            characters (fst (attempt_mutiny ship_M)) ! k =
              (if s_ideology (characters ship_M ! k) \<in> {REVOLUTIONARY, ANARCHIST}
                  \<and> s_role (characters ship_M ! k) \<noteq> ''captain''
               then (characters ship_M ! k)
                      \<lparr>s_stress := s_stress (characters ship_M ! k) + 15,
                       s_influence := s_influence (characters ship_M ! k) - 10\<rparr>
               else characters ship_M ! k)"
    by blast+
  have l1: "1 < length (characters ship_M)" and l3: "3 < length (characters ship_M)"
    by (simp_all add: ship_M_def mk_ship_def)
  from each [rule_format, OF l1]
  have k1: "s_stress (characters (fst (attempt_mutiny ship_M)) ! 1) = 65
          \<and> s_influence (characters (fst (attempt_mutiny ship_M)) ! 1) = 40"
    by (simp add: ship_M_def mk_ship_def mk_char_def)
  from each [rule_format, OF l3]
  have k3: "characters (fst (attempt_mutiny ship_M)) ! 3 = characters ship_M ! 3"
    by (simp add: ship_M_def mk_ship_def mk_char_def)
  from s auth k1 k3 show ?thesis by blast
qed

section \<open>The social graph\<close>

lemma two_agents_eq:
  "two_agents = \<lparr> nodes = [(''Alice'', person ''Alice'' 0.3), (''Bob'', person ''Bob'' 0.6)], edges = [] \<rparr>"
  by (simp add: two_agents_def add_character_def SocialSystem_init_def has_node_def person_def
      Character_init_def)

lemma name_person: "name (person nm x) = nm"
  by (simp add: person_def Character_init_def)

lemma update_edge_in_unit:
  "0 \<le> weight (update_edge change rtc d) \<and> weight (update_edge change rtc d) \<le> 1"
  by (simp add: update_edge_def Let_def split: option.split)

lemma add_relationship_weights:
  assumes "all_weights_in_unit g" and "0 \<le> s" and "s \<le> 1"
    and "add_relationship g c1 c2 s t = Inr g'"
  shows "all_weights_in_unit g'"
  using assms
  by (fastforce simp: add_relationship_def add_edge_def all_weights_in_unit_def split: if_splits)

lemma update_relationship_weights:
  assumes "all_weights_in_unit g" and "update_relationship g c1 c2 it = Inr g'"
  shows "all_weights_in_unit g'"
proof (cases "has_edge g (name c1) (name c2)")
  case True
  with assms(2) have g': "g' = g\<lparr>edges := map (\<lambda>e. if joins (fst e) (name c1) (name c2)
        then (fst e, update_edge (fst (interaction_change it)) (snd (interaction_change it)) (snd e))
        else e) (edges g)\<rparr>"
    by (simp add: update_relationship_def Let_def)
  show ?thesis
    unfolding all_weights_in_unit_def
  proof
    fix e assume "e \<in> set (edges g')"
    then have "e \<in> (\<lambda>e. if joins (fst e) (name c1) (name c2)
        then (fst e, update_edge (fst (interaction_change it)) (snd (interaction_change it)) (snd e))
        else e) ` set (edges g)"
      by (simp add: g')
    then obtain e0 where e0: "e0 \<in> set (edges g)"
      and e: "e = (if joins (fst e0) (name c1) (name c2)
        then (fst e0, update_edge (fst (interaction_change it)) (snd (interaction_change it)) (snd e0))
        else e0)"
      by blast
    from e0 assms(1) have "0 \<le> weight (snd e0) \<and> weight (snd e0) \<le> 1"
      by (simp add: all_weights_in_unit_def)
    with e show "0 \<le> weight (snd e) \<and> weight (snd e) \<le> 1"
      using update_edge_in_unit by (cases "joins (fst e0) (name c1) (name c2)") simp_all
  qed
next
  case False
  with assms(2) have "add_relationship g c1 c2 (max 0 (min 1 (fst (interaction_change it))))
     (case snd (interaction_change it) of Some t \<Rightarrow> t | None \<Rightarrow> NEUTRAL) = Inr g'"
    by (simp add: update_relationship_def Let_def)
  then show ?thesis
    by (rule add_relationship_weights [OF assms(1), rotated 2]) simp_all
qed

lemma update_relationship_returns: "\<exists>g'. update_relationship g c1 c2 it = Inr g'"
  by (simp add: update_relationship_def add_relationship_def Let_def)

lemma decay_weights:
  assumes "all_weights_in_unit g" and "0 \<le> rate"
  shows "all_weights_in_unit (decay_relationships g rate)"
  using assms
  by (auto simp: all_weights_in_unit_def decay_relationships_def)

lemma decay_no_zero: "no_zero_edge (decay_relationships g rate)"
  by (auto simp: no_zero_edge_def decay_relationships_def)

lemma has_edge_decay:
  "has_edge (decay_relationships g rate) u v \<longleftrightarrow>
     (\<exists>e \<in> set (edges g). joins (fst e) u v \<and> rate < weight (snd e))"
proof -
  have "max 0 (w - rate) \<noteq> 0 \<longleftrightarrow> rate < w" for w :: real
    by (auto simp: max_def)
  then show ?thesis
    by (auto simp: has_edge_def decay_relationships_def)
qed

text \<open>
  C1, as stated. Two agents of the graph with no edge between them: after a conflict
  interaction the graph holds an edge between them, of strength 0 and type conflict.
\<close>

theorem C1_conflict_edge_persists:
  "update_relationship two_agents (person ''Alice'' 0.3) (person ''Bob'' 0.6) ''conflict''
     = Inr (two_agents\<lparr>edges := [((''Alice'', ''Bob''), \<lparr> weight = 0, rel_type = CONFLICT \<rparr>)]\<rparr>)
   \<and> \<not> has_edge two_agents ''Alice'' ''Bob''
   \<and> has_edge (two_agents\<lparr>edges := [((''Alice'', ''Bob''), \<lparr> weight = 0, rel_type = CONFLICT \<rparr>)]\<rparr>)
        ''Alice'' ''Bob''"
  by (simp add: two_agents_eq update_relationship_def add_relationship_def add_edge_def has_edge_def
     has_node_def interaction_change_def name_person joins_def)

lemma map_fst_rewrite: "map fst (map (\<lambda>e. if P e then (fst e, f e) else e) es) = map fst es"
  by (induction es) auto

lemma has_edge_keys: "has_edge g u v \<longleftrightarrow> (\<exists>k \<in> set (map fst (edges g)). joins k u v)"
  by (auto simp: has_edge_def)

lemma weight_update_edge: "weight (update_edge ch rtc d) = max 0 (min 1 (weight d + ch))"
  by (simp add: update_edge_def Let_def split: option.split)

lemma update_relationship_existing:
  "has_edge g (name c1) (name c2) \<Longrightarrow>
   update_relationship g c1 c2 it =
     Inr (g\<lparr>edges := map (\<lambda>e. if joins (fst e) (name c1) (name c2)
        then (fst e, update_edge (fst (interaction_change it)) (snd (interaction_change it)) (snd e))
        else e) (edges g)\<rparr>)"
  by (simp add: update_relationship_def Let_def)

lemma update_relationship_new_conflict:
  "\<not> has_edge g (name c1) (name c2) \<Longrightarrow> has_node g (name c1) \<Longrightarrow> has_node g (name c2) \<Longrightarrow>
   update_relationship g c1 c2 ''conflict'' =
     Inr (g\<lparr>edges := edges g @ [((name c1, name c2), \<lparr> weight = 0, rel_type = CONFLICT \<rparr>)]\<rparr>)"
  by (simp add: update_relationship_def Let_def add_relationship_def add_edge_def
      interaction_change_def)

lemma update_relationship_keys:
  assumes "update_relationship g c1 c2 it = Inr g'"
  shows "nodes g' = nodes g
    \<and> map fst (edges g') = map fst (edges g) @
         (if \<not> has_edge g (name c1) (name c2) \<and> has_node g (name c1) \<and> has_node g (name c2)
          then [(name c1, name c2)] else [])"
proof (cases "has_edge g (name c1) (name c2)")
  case True
  from assms [unfolded update_relationship_existing [OF True]]
  have "g' = g\<lparr>edges := map (\<lambda>e. if joins (fst e) (name c1) (name c2)
        then (fst e, update_edge (fst (interaction_change it)) (snd (interaction_change it)) (snd e))
        else e) (edges g)\<rparr>"
    by simp
  with True show ?thesis by (simp add: map_fst_rewrite)
next
  case False
  with assms have ar: "add_relationship g c1 c2 (max 0 (min 1 (fst (interaction_change it))))
     (case snd (interaction_change it) of Some t \<Rightarrow> t | None \<Rightarrow> NEUTRAL) = Inr g'"
    by (simp add: update_relationship_def Let_def)
  show ?thesis
  proof (cases "has_node g (name c1) \<and> has_node g (name c2)")
    case both: True
    with ar False show ?thesis
      by (auto simp: add_relationship_def add_edge_def)
  next
    case notboth: False
    with ar have "g' = g" by (auto simp: add_relationship_def)
    with notboth show ?thesis by auto
  qed
qed

lemma update_relationship_keeps_edges:
  assumes "update_relationship g c1 c2 it = Inr g'" and "has_edge g u v"
  shows "has_edge g' u v"
proof -
  from update_relationship_keys [OF assms(1)]
  have "set (map fst (edges g)) \<subseteq> set (map fst (edges g'))" by auto
  with assms(2) show ?thesis unfolding has_edge_keys by blast
qed

text \<open>
  C1, amended. \<open>update_relationship\<close> always returns and removes no edge: the nodes stay,
  the pairs under which the edges are stored stay in their order, and one pair is added
  exactly when the two agents are nodes with no edge between them. On an existing edge
  the strength becomes the old strength plus the change, clamped to the range 0 to 1,
  and the edge is kept also when that is 0; when every strength was between 0 and 1
  before the call, every strength is so after it. A conflict between two nodes with no
  edge between them adds an edge of strength 0 and type conflict. After
  \<open>decay_relationships\<close> no edge has strength 0, an edge is present exactly when its
  strength before was greater than the rate, and with a rate that is not negative every
  strength stays between 0 and 1.
\<close>

theorem C1_edge_strengths:
  "(\<exists>g'. update_relationship g c1 c2 it = Inr g'
          \<and> (all_weights_in_unit g \<longrightarrow> all_weights_in_unit g')
          \<and> nodes g' = nodes g
          \<and> map fst (edges g') = map fst (edges g) @
               (if \<not> has_edge g (name c1) (name c2) \<and> has_node g (name c1)
                     \<and> has_node g (name c2)
                then [(name c1, name c2)] else [])
          \<and> (\<forall>a b. has_edge g a b \<longrightarrow> has_edge g' a b))
   \<and> (has_edge g (name c1) (name c2) \<longrightarrow>
        update_relationship g c1 c2 it =
          Inr (g\<lparr>edges := map (\<lambda>e. if joins (fst e) (name c1) (name c2)
                 then (fst e, update_edge (fst (interaction_change it))
                                (snd (interaction_change it)) (snd e))
                 else e) (edges g)\<rparr>))
   \<and> weight (update_edge ch rtc d) = max 0 (min 1 (weight d + ch))
   \<and> (\<not> has_edge g (name c1) (name c2) \<and> has_node g (name c1) \<and> has_node g (name c2) \<longrightarrow>
        update_relationship g c1 c2 ''conflict'' =
          Inr (g\<lparr>edges := edges g @
                 [((name c1, name c2), \<lparr> weight = 0, rel_type = CONFLICT \<rparr>)]\<rparr>))
   \<and> no_zero_edge (decay_relationships g rate)
   \<and> (has_edge (decay_relationships g rate) u v \<longleftrightarrow>
        (\<exists>e \<in> set (edges g). joins (fst e) u v \<and> rate < weight (snd e)))
   \<and> (all_weights_in_unit g \<and> 0 \<le> rate \<longrightarrow> all_weights_in_unit (decay_relationships g rate))"
proof -
  obtain g' where g': "update_relationship g c1 c2 it = Inr g'"
    using update_relationship_returns by blast
  have w: "all_weights_in_unit g \<longrightarrow> all_weights_in_unit g'"
    using g' update_relationship_weights by blast
  note k = update_relationship_keys [OF g']
  have keep: "\<forall>a b. has_edge g a b \<longrightarrow> has_edge g' a b"
    using update_relationship_keeps_edges [OF g'] by blast
  from g' w k keep have first: "\<exists>g'. update_relationship g c1 c2 it = Inr g'
          \<and> (all_weights_in_unit g \<longrightarrow> all_weights_in_unit g')
          \<and> nodes g' = nodes g
          \<and> map fst (edges g') = map fst (edges g) @
               (if \<not> has_edge g (name c1) (name c2) \<and> has_node g (name c1)
                     \<and> has_node g (name c2)
                then [(name c1, name c2)] else [])
          \<and> (\<forall>a b. has_edge g a b \<longrightarrow> has_edge g' a b)"
    by blast
  have second: "has_edge g (name c1) (name c2) \<longrightarrow>
        update_relationship g c1 c2 it =
          Inr (g\<lparr>edges := map (\<lambda>e. if joins (fst e) (name c1) (name c2)
                 then (fst e, update_edge (fst (interaction_change it))
                                (snd (interaction_change it)) (snd e))
                 else e) (edges g)\<rparr>)"
    using update_relationship_existing by blast
  have third: "weight (update_edge ch rtc d) = max 0 (min 1 (weight d + ch))"
    by (rule weight_update_edge)
  have fourth: "\<not> has_edge g (name c1) (name c2) \<and> has_node g (name c1) \<and> has_node g (name c2) \<longrightarrow>
        update_relationship g c1 c2 ''conflict'' =
          Inr (g\<lparr>edges := edges g @
                 [((name c1, name c2), \<lparr> weight = 0, rel_type = CONFLICT \<rparr>)]\<rparr>)"
    using update_relationship_new_conflict by blast
  have fifth: "no_zero_edge (decay_relationships g rate)" by (rule decay_no_zero)
  have sixth: "has_edge (decay_relationships g rate) u v \<longleftrightarrow>
        (\<exists>e \<in> set (edges g). joins (fst e) u v \<and> rate < weight (snd e))"
    by (rule has_edge_decay)
  have seventh: "all_weights_in_unit g \<and> 0 \<le> rate \<longrightarrow>
      all_weights_in_unit (decay_relationships g rate)"
    using decay_weights by blast
  show ?thesis
    by (intro conjI first second third fourth fifth sixth seventh)
qed

theorem C1_edge_strengths_witness:
  "all_weights_in_unit conflict_graph
   \<and> \<not> has_edge (decay_relationships conflict_graph 0.01) ''Alice'' ''Bob''
   \<and> all_weights_in_unit (decay_relationships conflict_graph 0.01)
   \<and> (\<exists>g'. update_relationship conflict_graph (person ''Alice'' 0.3) (person ''Bob'' 0.6)
              ''cooperation'' = Inr g' \<and> all_weights_in_unit g'
              \<and> has_edge g' ''Alice'' ''Bob'')
   \<and> update_relationship conflict_graph (person ''Alice'' 0.3) (person ''Bob'' 0.6) ''conflict''
        = Inr conflict_graph
   \<and> update_relationship two_agents (person ''Alice'' 0.3) (person ''Bob'' 0.6) ''conflict''
        = Inr conflict_graph"
proof -
  have w: "all_weights_in_unit conflict_graph"
    by (simp add: conflict_graph_def all_weights_in_unit_def)
  have r: "(0::real) \<le> 0.01" by simp
  have none: "\<not> (\<exists>e \<in> set (edges conflict_graph). joins (fst e) ''Alice'' ''Bob''
      \<and> 0.01 < weight (snd e))"
    by (simp add: conflict_graph_def)
  have he: "has_edge conflict_graph (name (person ''Alice'' 0.3)) (name (person ''Bob'' 0.6))"
    by (simp add: conflict_graph_def has_edge_def joins_def name_person)
  note inst = C1_edge_strengths [of conflict_graph "person ''Alice'' 0.3" "person ''Bob'' 0.6"
      "''cooperation''" _ _ _ "0.01" "''Alice''" "''Bob''"]
  from inst none have a: "\<not> has_edge (decay_relationships conflict_graph 0.01) ''Alice'' ''Bob''"
    by blast
  from inst w r have b: "all_weights_in_unit (decay_relationships conflict_graph 0.01)"
    by blast
  from inst obtain g' where g': "update_relationship conflict_graph (person ''Alice'' 0.3)
      (person ''Bob'' 0.6) ''cooperation'' = Inr g'"
    and gw: "all_weights_in_unit conflict_graph \<longrightarrow> all_weights_in_unit g'"
    and gk: "\<forall>a b. has_edge conflict_graph a b \<longrightarrow> has_edge g' a b"
    by blast
  from he gk have "has_edge g' ''Alice'' ''Bob''" by (simp add: name_person)
  with g' gw w have c: "\<exists>g'. update_relationship conflict_graph (person ''Alice'' 0.3)
      (person ''Bob'' 0.6) ''cooperation'' = Inr g' \<and> all_weights_in_unit g'
      \<and> has_edge g' ''Alice'' ''Bob''"
    by blast
  from C1_edge_strengths [of conflict_graph "person ''Alice'' 0.3" "person ''Bob'' 0.6"
      "''conflict''"] he
  have "update_relationship conflict_graph (person ''Alice'' 0.3) (person ''Bob'' 0.6) ''conflict''
      = Inr (conflict_graph\<lparr>edges := map (\<lambda>e. if joins (fst e) (name (person ''Alice'' 0.3))
                   (name (person ''Bob'' 0.6))
                 then (fst e, update_edge (fst (interaction_change ''conflict''))
                                (snd (interaction_change ''conflict'')) (snd e))
                 else e) (edges conflict_graph)\<rparr>)"
    by blast
  then have d: "update_relationship conflict_graph (person ''Alice'' 0.3) (person ''Bob'' 0.6)
      ''conflict'' = Inr conflict_graph"
    by (simp add: conflict_graph_def name_person joins_def update_edge_def
        interaction_change_def)
  have pre: "\<not> has_edge two_agents (name (person ''Alice'' 0.3)) (name (person ''Bob'' 0.6))
      \<and> has_node two_agents (name (person ''Alice'' 0.3))
      \<and> has_node two_agents (name (person ''Bob'' 0.6))"
    by (simp add: two_agents_eq has_edge_def has_node_def name_person)
  from C1_edge_strengths [of two_agents "person ''Alice'' 0.3" "person ''Bob'' 0.6"] pre
  have "update_relationship two_agents (person ''Alice'' 0.3) (person ''Bob'' 0.6) ''conflict''
      = Inr (two_agents\<lparr>edges := edges two_agents @
           [((name (person ''Alice'' 0.3), name (person ''Bob'' 0.6)),
             \<lparr> weight = 0, rel_type = CONFLICT \<rparr>)]\<rparr>)"
    by blast
  then have e: "update_relationship two_agents (person ''Alice'' 0.3) (person ''Bob'' 0.6)
      ''conflict'' = Inr conflict_graph"
    by (simp add: conflict_graph_def two_agents_eq name_person)
  from w a b c d e show ?thesis by blast
qed

text \<open>
  C8, as stated. In the empty graph, \<open>add_relationship\<close> between two unknown agents
  returns normally, with the graph as it was: no error is raised.
\<close>

theorem C8_no_error_counterexample:
  "add_relationship SocialSystem_init (person ''Alice'' 0.3) (person ''Bob'' 0.6) 0.5 NEUTRAL
     = Inr SocialSystem_init
   \<and> add_relationship SocialSystem_init (person ''Alice'' 0.3) (person ''Bob'' 0.6) 0.5 NEUTRAL
     \<noteq> Inl NotFoundError"
  by (simp add: add_relationship_def SocialSystem_init_def has_node_def)

text \<open>
  C8, amended. \<open>add_relationship\<close> writes an edge only when both agents are nodes of the
  graph. When either is absent it returns normally and leaves the graph unchanged. When
  both are present the nodes stay as they are and the edge between the two is present
  with the given strength and type.
\<close>

theorem C8_add_relationship:
  "(\<not> has_node g (name c1) \<or> \<not> has_node g (name c2) \<longrightarrow>
      add_relationship g c1 c2 s t = Inr g)
   \<and> (has_node g (name c1) \<and> has_node g (name c2) \<longrightarrow>
      (\<exists>g'. add_relationship g c1 c2 s t = Inr g' \<and> nodes g' = nodes g
         \<and> has_edge g' (name c1) (name c2)
         \<and> (\<forall>e \<in> set (edges g'). joins (fst e) (name c1) (name c2) \<longrightarrow>
               weight (snd e) = s \<and> rel_type (snd e) = t)))"
proof -
  have absent: "add_relationship g c1 c2 s t = Inr g"
    if "\<not> has_node g (name c1) \<or> \<not> has_node g (name c2)"
    using that by (auto simp: add_relationship_def)
  have present: "\<exists>g'. add_relationship g c1 c2 s t = Inr g' \<and> nodes g' = nodes g
         \<and> has_edge g' (name c1) (name c2)
         \<and> (\<forall>e \<in> set (edges g'). joins (fst e) (name c1) (name c2) \<longrightarrow>
               weight (snd e) = s \<and> rel_type (snd e) = t)"
    if both: "has_node g (name c1) \<and> has_node g (name c2)"
  proof (cases "has_edge g (name c1) (name c2)")
    case True
    let ?g = "g\<lparr>edges := map (\<lambda>e. if joins (fst e) (name c1) (name c2)
                                 then (fst e, \<lparr> weight = s, rel_type = t \<rparr>) else e) (edges g)\<rparr>"
    from True both have r: "add_relationship g c1 c2 s t = Inr ?g"
      by (simp add: add_relationship_def add_edge_def)
    from True obtain e where e: "e \<in> set (edges g)" "joins (fst e) (name c1) (name c2)"
      by (auto simp: has_edge_def)
    then have "(fst e, \<lparr> weight = s, rel_type = t \<rparr>) \<in> set (edges ?g)"
      by force
    with e(2) have h: "has_edge ?g (name c1) (name c2)"
      unfolding has_edge_def by (intro bexI [of _ "(fst e, \<lparr> weight = s, rel_type = t \<rparr>)"]) simp_all
    have "\<forall>e \<in> set (edges ?g). joins (fst e) (name c1) (name c2) \<longrightarrow>
               weight (snd e) = s \<and> rel_type (snd e) = t"
      by auto
    with r h show ?thesis by simp
  next
    case False
    let ?g = "g\<lparr>edges := edges g @ [((name c1, name c2), \<lparr> weight = s, rel_type = t \<rparr>)]\<rparr>"
    from False both have r: "add_relationship g c1 c2 s t = Inr ?g"
      by (simp add: add_relationship_def add_edge_def)
    have h: "has_edge ?g (name c1) (name c2)"
      by (simp add: has_edge_def joins_def)
    from False have "\<forall>e \<in> set (edges ?g). joins (fst e) (name c1) (name c2) \<longrightarrow>
               weight (snd e) = s \<and> rel_type (snd e) = t"
      by (auto simp: has_edge_def)
    with r h show ?thesis by simp
  qed
  from absent present show ?thesis by blast
qed

theorem C8_add_relationship_witness:
  "add_relationship (add_character SocialSystem_init (person ''Alice'' 0.3))
      (person ''Alice'' 0.3) (person ''Bob'' 0.6) 0.5 NEUTRAL
     = Inr (add_character SocialSystem_init (person ''Alice'' 0.3))
   \<and> (\<exists>g'. add_relationship two_agents (person ''Alice'' 0.3) (person ''Bob'' 0.6) 0.5 NEUTRAL
              = Inr g' \<and> has_edge g' ''Alice'' ''Bob'')"
proof -
  let ?g = "add_character SocialSystem_init (person ''Alice'' 0.3)"
  have nb: "\<not> has_node ?g (name (person ''Alice'' 0.3)) \<or> \<not> has_node ?g (name (person ''Bob'' 0.6))"
    by (simp add: add_character_def SocialSystem_init_def has_node_def name_person)
  from C8_add_relationship [of ?g "person ''Alice'' 0.3" "person ''Bob'' 0.6" "0.5" NEUTRAL] nb
  have a: "add_relationship ?g (person ''Alice'' 0.3) (person ''Bob'' 0.6) 0.5 NEUTRAL = Inr ?g"
    by blast
  have both: "has_node two_agents (name (person ''Alice'' 0.3))
      \<and> has_node two_agents (name (person ''Bob'' 0.6))"
    by (simp add: two_agents_eq has_node_def name_person)
  from C8_add_relationship [of two_agents "person ''Alice'' 0.3" "person ''Bob'' 0.6" "0.5" NEUTRAL]
    both
  have b: "\<exists>g'. add_relationship two_agents (person ''Alice'' 0.3) (person ''Bob'' 0.6) 0.5 NEUTRAL
              = Inr g' \<and> has_edge g' ''Alice'' ''Bob''"
    by (auto simp: name_person)
  from a b show ?thesis by blast
qed

section \<open>Queries on the social graph\<close>

lemma set_map_filter_iff:
  "y \<in> set (List.map_filter f xs) \<longleftrightarrow> (\<exists>x \<in> set xs. f x = Some y)"
  by (induction xs) (auto split: option.splits)

lemma other_end_joins: "other_end n k = Some m \<longleftrightarrow> joins k n m"
  by (cases k) (auto simp: other_end_def joins_def)

lemma other_end_pair: "other_end n k = Some m \<Longrightarrow> {fst k, snd k} = {n, m}"
  by (cases k) (auto simp: other_end_def split: if_splits)

lemma get_relationships_entries:
  "has_node g n \<Longrightarrow>
   (m, w, t) \<in> set (get_relationships g n) \<longleftrightarrow>
     (\<exists>e \<in> set (edges g). joins (fst e) n m \<and> w = weight (snd e)
         \<and> t = RelationshipType_value (rel_type (snd e)))"
  by (auto simp: get_relationships_def set_map_filter_iff other_end_joins)

lemma map_filter_keys_distinct:
  "distinct (map (\<lambda>e. {fst (fst e), snd (fst e)}) es) \<Longrightarrow>
   distinct (map fst (List.map_filter
      (\<lambda>e. map_option (\<lambda>m. (m, f e)) (other_end n (fst e))) es))"
proof (induction es)
  case Nil
  show ?case by simp
next
  case (Cons e es)
  then have IH: "distinct (map fst (List.map_filter
      (\<lambda>e. map_option (\<lambda>m. (m, f e)) (other_end n (fst e))) es))"
    and fresh: "{fst (fst e), snd (fst e)} \<notin> (\<lambda>e. {fst (fst e), snd (fst e)}) ` set es"
    by simp_all
  show ?case
  proof (cases "other_end n (fst e)")
    case None
    with IH show ?thesis by simp
  next
    case (Some m)
    have "m \<notin> fst ` set (List.map_filter
      (\<lambda>e. map_option (\<lambda>m. (m, f e)) (other_end n (fst e))) es)"
    proof
      assume "m \<in> fst ` set (List.map_filter
        (\<lambda>e. map_option (\<lambda>m. (m, f e)) (other_end n (fst e))) es)"
      then obtain e' where e': "e' \<in> set es" "other_end n (fst e') = Some m"
        by (auto simp: set_map_filter_iff)
      from other_end_pair [OF Some] other_end_pair [OF e'(2)]
      have "{fst (fst e), snd (fst e)} = {fst (fst e'), snd (fst e')}" by simp
      with e'(1) fresh show False by blast
    qed
    with IH Some show ?thesis by simp
  qed
qed

text \<open>
  C10. For a name that is no node of the graph, \<open>get_relationships\<close> returns the empty
  mapping; the query raises nothing and writes nothing. For a node it returns exactly
  the entries made of a neighbour, the strength of the edge to it and the text of the
  type of that edge; when no pair of agents is stored twice among the edges, each
  neighbour has one entry.
\<close>

theorem C10_get_relationships:
  "(\<not> has_node g n \<longrightarrow> get_relationships g n = [])
   \<and> (has_node g n \<longrightarrow>
        (\<forall>m w t. (m, w, t) \<in> set (get_relationships g n) \<longleftrightarrow>
           (\<exists>e \<in> set (edges g). joins (fst e) n m \<and> w = weight (snd e)
               \<and> t = RelationshipType_value (rel_type (snd e))))
        \<and> (distinct (map (\<lambda>e. {fst (fst e), snd (fst e)}) (edges g)) \<longrightarrow>
             distinct (map fst (get_relationships g n))))"
proof -
  have a: "\<not> has_node g n \<longrightarrow> get_relationships g n = []"
    by (simp add: get_relationships_def)
  have b: "\<forall>m w t. (m, w, t) \<in> set (get_relationships g n) \<longleftrightarrow>
           (\<exists>e \<in> set (edges g). joins (fst e) n m \<and> w = weight (snd e)
               \<and> t = RelationshipType_value (rel_type (snd e)))" if "has_node g n"
    using get_relationships_entries [OF that] by blast
  have c: "distinct (map fst (get_relationships g n))"
    if "has_node g n" "distinct (map (\<lambda>e. {fst (fst e), snd (fst e)}) (edges g))"
    using that map_filter_keys_distinct [of "edges g"
        "\<lambda>e. (weight (snd e), RelationshipType_value (rel_type (snd e)))" n]
    by (simp add: get_relationships_def)
  from a b c show ?thesis by blast
qed

theorem C10_get_relationships_witness:
  "get_relationships friends ''Carol'' = []
   \<and> (''Alice'', 0.8, ''friendship'') \<in> set (get_relationships friends ''Bob'')
   \<and> distinct (map fst (get_relationships friends ''Bob''))"
proof -
  have nodes: "\<not> has_node friends ''Carol''" "has_node friends ''Bob''"
    by (simp_all add: friends_def two_agents_eq has_node_def)
  have d: "distinct (map (\<lambda>e. {fst (fst e), snd (fst e)}) (edges friends))"
    by (simp add: friends_def)
  have e: "\<exists>e \<in> set (edges friends). joins (fst e) ''Bob'' ''Alice'' \<and> 0.8 = weight (snd e)
               \<and> ''friendship'' = RelationshipType_value (rel_type (snd e))"
    by (simp add: friends_def joins_def)
  from C10_get_relationships [of friends "''Carol''"] nodes(1)
  have a: "get_relationships friends ''Carol'' = []" by blast
  from C10_get_relationships [of friends "''Bob''"] nodes(2) e
  have b: "(''Alice'', 0.8, ''friendship'') \<in> set (get_relationships friends ''Bob'')" by blast
  from C10_get_relationships [of friends "''Bob''"] nodes(2) d
  have c: "distinct (map fst (get_relationships friends ''Bob''))" by blast
  from a b c show ?thesis by blast
qed

section \<open>The most influential character\<close>

lemma py_max_from_split:
  "\<exists>ys zs. best # xs = ys @ py_max_from key best xs # zs
     \<and> (\<forall>y \<in> set ys. key y < key (py_max_from key best xs))
     \<and> (\<forall>z \<in> set zs. key z \<le> key (py_max_from key best xs))"
proof (induction xs arbitrary: best)
  case Nil
  show ?case by (intro exI [of _ "[]"]) simp
next
  case (Cons x xs)
  let ?r = "py_max_from key best (x # xs)"
  show ?case
  proof (cases "key best < key x")
    case True
    then have r: "?r = py_max_from key x xs" by simp
    from Cons.IH [of x] obtain ys zs where s: "x # xs = ys @ py_max_from key x xs # zs"
      and lt: "\<forall>y \<in> set ys. key y < key (py_max_from key x xs)"
      and le: "\<forall>z \<in> set zs. key z \<le> key (py_max_from key x xs)"
      by blast
    have "key x \<le> key (py_max_from key x xs)"
    proof (cases ys)
      case Nil
      with s show ?thesis by (metis append_Nil list.inject order_refl)
    next
      case (Cons y ys')
      with s have "x = y" by simp
      with Cons lt show ?thesis by auto
    qed
    with True have "key best < key (py_max_from key x xs)" by simp
    with s lt le r show ?thesis
      by (intro exI [of _ "best # ys"] exI [of _ zs]) simp
  next
    case False
    then have r: "?r = py_max_from key best xs" by simp
    from Cons.IH [of best] obtain ys zs where s: "best # xs = ys @ py_max_from key best xs # zs"
      and lt: "\<forall>y \<in> set ys. key y < key (py_max_from key best xs)"
      and le: "\<forall>z \<in> set zs. key z \<le> key (py_max_from key best xs)"
      by blast
    show ?thesis
    proof (cases ys)
      case Nil
      note s [unfolded Nil append_Nil]
      then have b: "py_max_from key best xs = best" and zs: "zs = xs"
        by (metis list.inject)+
      from False have "key x \<le> key best" by simp
      with b zs le r show ?thesis
        by (intro exI [of _ "[]"] exI [of _ "x # xs"]) simp
    next
      case (Cons y ys')
      note s [unfolded Cons append_Cons]
      then have y: "y = best" and xs: "xs = ys' @ py_max_from key best xs # zs"
        by (metis list.inject)+
      from Cons y lt have "key best < key (py_max_from key best xs)" by simp
      with False have "key x < key (py_max_from key best xs)" by simp
      with Cons y xs lt le r show ?thesis
        by (intro exI [of _ "best # x # ys'"] exI [of _ zs]) auto
    qed
  qed
qed

lemma py_max_key_split:
  "xs \<noteq> [] \<Longrightarrow>
   \<exists>r ys zs. py_max_key key xs = Inr r \<and> xs = ys @ r # zs
     \<and> (\<forall>y \<in> set ys. key y < key r) \<and> (\<forall>z \<in> set zs. key z \<le> key r)"
proof (cases xs)
  case Nil
  assume "xs \<noteq> []"
  with Nil show ?thesis by simp
next
  case (Cons x xs')
  from py_max_from_split [of x xs' key] Cons show ?thesis
    by (auto simp: py_max_key_def)
qed

lemma collect_scores:
  "\<forall>nc \<in> set ns. map_of (big_five_traits (snd nc)) EXTRAVERSION \<noteq> None \<Longrightarrow>
   collect (influence_score g) ns = Inr (map (\<lambda>nc. (fst nc, score_of g nc)) ns)"
  by (induction ns) (auto simp: influence_score_def score_of_def)

lemma collect_Nil_iff: "collect f xs = Inr [] \<longleftrightarrow> xs = []"
  by (cases xs) (auto split: sum.splits)

lemma most_influential_None_iff:
  "get_most_influential_character g = Inr None \<longleftrightarrow> nodes g = []"
  by (auto simp: get_most_influential_character_def split: sum.splits option.splits)

text \<open>
  C9. \<open>get_most_influential_character\<close> returns none exactly when the graph has no
  node. When it has nodes, each under its own name and each character with an
  extraversion trait, it returns the character of a node whose score, the degree of the
  node plus the extraversion of its character, is at least the score of every node and
  strictly greater than the score of every node that comes before it in the order of
  the nodes.
\<close>

theorem C9_most_influential:
  "(get_most_influential_character g = Inr None \<longleftrightarrow> nodes g = [])
   \<and> (nodes g \<noteq> [] \<and> distinct (map fst (nodes g))
        \<and> (\<forall>nc \<in> set (nodes g). map_of (big_five_traits (snd nc)) EXTRAVERSION \<noteq> None) \<longrightarrow>
      (\<exists>ys n c zs. nodes g = ys @ (n, c) # zs
          \<and> get_most_influential_character g = Inr (Some c)
          \<and> (\<forall>y \<in> set ys. score_of g y < score_of g (n, c))
          \<and> (\<forall>z \<in> set zs. score_of g z \<le> score_of g (n, c))))"
proof -
  have main: "\<exists>ys n c zs. nodes g = ys @ (n, c) # zs
          \<and> get_most_influential_character g = Inr (Some c)
          \<and> (\<forall>y \<in> set ys. score_of g y < score_of g (n, c))
          \<and> (\<forall>z \<in> set zs. score_of g z \<le> score_of g (n, c))"
    if ne: "nodes g \<noteq> []" and dist: "distinct (map fst (nodes g))"
      and traits: "\<forall>nc \<in> set (nodes g). map_of (big_five_traits (snd nc)) EXTRAVERSION \<noteq> None"
  proof -
    let ?f = "\<lambda>nc. (fst nc, score_of g nc)"
    let ?inf = "map ?f (nodes g)"
    have coll: "collect (influence_score g) (nodes g) = Inr ?inf"
      using traits by (rule collect_scores)
    from ne have "?inf \<noteq> []" by simp
    from py_max_key_split [OF this, of snd]
    obtain r ys' zs' where r: "py_max_key snd ?inf = Inr r"
      and split': "?inf = ys' @ r # zs'"
      and lt: "\<forall>y \<in> set ys'. snd y < snd r" and le: "\<forall>z \<in> set zs'. snd z \<le> snd r"
      by blast
    from split' obtain ys rest where n1: "nodes g = ys @ rest" and ys': "ys' = map ?f ys"
      and rest: "r # zs' = map ?f rest"
      by (auto simp: map_eq_append_conv)
    from rest obtain x zs where rest_eq: "rest = x # zs" and rx: "r = ?f x" and zs': "zs' = map ?f zs"
      by (cases rest) auto
    obtain n c where x: "x = (n, c)" by (cases x)
    from n1 rest_eq x have split: "nodes g = ys @ (n, c) # zs" by simp
    then have "(n, c) \<in> set (nodes g)" by simp
    with dist have look: "map_of (nodes g) n = Some c" by (rule map_of_is_SomeI)
    from rx x have fr: "fst r = n" and sr: "snd r = score_of g (n, c)" by simp_all
    have res: "get_most_influential_character g = Inr (Some c)"
      using ne coll r look fr by (simp add: get_most_influential_character_def)
    from lt ys' sr have a: "\<forall>y \<in> set ys. score_of g y < score_of g (n, c)" by simp
    from le zs' sr have b: "\<forall>z \<in> set zs. score_of g z \<le> score_of g (n, c)" by simp
    from split res a b show ?thesis by blast
  qed
  from most_influential_None_iff [of g] main show ?thesis by blast
qed

theorem C9_most_influential_witness:
  "get_most_influential_character trio = Inr (Some (person ''Alice'' 0.3))
   \<and> get_most_influential_character SocialSystem_init = Inr None"
proof -
  have ne: "nodes trio \<noteq> []" and dist: "distinct (map fst (nodes trio))"
    by (simp_all add: trio_def)
  have ext: "map_of (big_five_traits (person nm x)) EXTRAVERSION = Some x" for nm x
    by (simp add: person_def Character_init_def)
  have traits: "\<forall>nc \<in> set (nodes trio). map_of (big_five_traits (snd nc)) EXTRAVERSION \<noteq> None"
    by (simp add: trio_def ext del: not_None_eq)
  from C9_most_influential [of trio] ne dist traits
  obtain ys n c zs where split: "nodes trio = ys @ (n, c) # zs"
    and res: "get_most_influential_character trio = Inr (Some c)"
    and lt: "\<forall>y \<in> set ys. score_of trio y < score_of trio (n, c)"
    and le: "\<forall>z \<in> set zs. score_of trio z \<le> score_of trio (n, c)"
    by blast
  have sA: "score_of trio (''Alice'', person ''Alice'' 0.3) = 1.3"
    and sB: "score_of trio (''Bob'', person ''Bob'' 0.3) = 1.3"
    and sC: "score_of trio (''Carol'', person ''Carol'' 0.1) = 0.1"
    by (simp_all add: score_of_def degree_def trio_def person_def Character_init_def)
  have "ys = []"
  proof (cases ys)
    case Nil
    then show ?thesis .
  next
    case (Cons y ys')
    with split have y: "y = (''Alice'', person ''Alice'' 0.3)" by (simp add: trio_def)
    have "(n, c) \<in> set (nodes trio)" using split by simp
    then have "score_of trio (n, c) \<le> 1.3"
      using sA sB sC by (auto simp: trio_def)
    moreover from lt Cons y have "score_of trio (''Alice'', person ''Alice'' 0.3) < score_of trio (n, c)"
      by simp
    ultimately show ?thesis using sA by simp
  qed
  with split have "c = person ''Alice'' 0.3" by (auto simp: trio_def)
  with res have a: "get_most_influential_character trio = Inr (Some (person ''Alice'' 0.3))"
    by simp
  have "nodes SocialSystem_init = []" by (simp add: SocialSystem_init_def)
  with C9_most_influential [of SocialSystem_init]
  have b: "get_most_influential_character SocialSystem_init = Inr None" by blast
  from a b show ?thesis by blast
qed

section \<open>Applying an event\<close>

lemma catalog_attributes:
  "map (\<lambda>e. map (attribute_of \<circ> fst) (impact e)) predefined_events =
     [[''hunger'', ''cooperation'', ''conflict''], [''trust'', ''rebellion_chance''],
      [''stress'', ''cooperation_chance''], [''moral_distress'', ''cooperation'']]"
  by (simp add: predefined_events_def Event_init_def attribute_of_def endswith_def
      replace_by_empty_def)

lemma getattr_missing:
  "getattr c ''hunger'' = Inl AttributeError"
  "getattr c ''cooperation'' = Inl AttributeError"
  "getattr c ''conflict'' = Inl AttributeError"
  "getattr c ''trust'' = Inl AttributeError"
  "getattr c ''rebellion_chance'' = Inl AttributeError"
  "getattr c ''stress'' = Inl AttributeError"
  "getattr c ''cooperation_chance'' = Inl AttributeError"
  "getattr c ''moral_distress'' = Inl AttributeError"
  by (simp_all add: getattr_def other_instance_attributes_def method_names_def object_members_def)

lemma getattr_catalog:
  "a \<in> set [''hunger'', ''cooperation'', ''conflict'', ''trust'', ''rebellion_chance'', ''stress'',
            ''cooperation_chance'', ''moral_distress''] \<Longrightarrow> getattr c a = Inl AttributeError"
  unfolding set_simps insert_iff empty_iff
  by (elim disjE) (simp_all only: getattr_missing)

lemma getattr_catalog_keys:
  assumes "e \<in> set predefined_events" and "k \<in> set (map fst (impact e))"
  shows "getattr c (attribute_of k) = Inl AttributeError"
proof -
  from assms have "attribute_of k \<in> set (concat (map (\<lambda>e. map (attribute_of \<circ> fst) (impact e))
      predefined_events))"
    by auto
  then have "attribute_of k \<in> set [''hunger'', ''cooperation'', ''conflict'', ''trust'',
      ''rebellion_chance'', ''stress'', ''cooperation_chance'', ''moral_distress'']"
    unfolding catalog_attributes by (simp only: concat.simps set_append set_simps) blast
  then show ?thesis by (rule getattr_catalog)
qed

lemma apply_effects_catalog_all:
  "\<forall>imp \<in> set (map impact predefined_events). apply_effects c sev imp = (c, Some AttributeError)"
  by (simp add: predefined_events_def Event_init_def endswith_def replace_by_empty_def adjust_def
      getattr_missing)

lemma apply_effects_catalog:
  assumes "e \<in> set predefined_events"
  shows "apply_effects c sev (impact e) = (c, Some AttributeError)"
proof -
  from assms have "impact e \<in> set (map impact predefined_events)" by simp
  with apply_effects_catalog_all show ?thesis by blast
qed

lemma missing_members:
  "PsychologicalState_member ''ANXIOUS'' = Inl AttributeError"
  "PsychologicalState_member ''CALM'' = Inl AttributeError"
  "PsychologicalState_member ''AGGRESSIVE'' = Inl AttributeError"
  by (simp_all add: PsychologicalState_member_def)

lemma apply_state_impact_fails: "apply_state_impact c = (c, Some AttributeError)"
  by (simp add: apply_state_impact_def missing_members)

lemma apply_event_impact_raises: "cs \<noteq> [] \<Longrightarrow> snd (apply_event_impact cs event) \<noteq> None"
  by (cases cs) (auto simp: apply_state_impact_fails split: prod.splits option.splits)

text \<open>
  C4. For every event of the predefined catalog, whatever its severity, and every
  non-empty list of characters, \<open>apply_event_impact\<close> raises AttributeError and leaves
  the characters as they were: every impact key of the catalog names an attribute that
  a \<open>Character\<close> does not have, and the first key of each event already does. The enum
  \<open>PsychologicalState\<close> has no member ANXIOUS, CALM or AGGRESSIVE, so that with any
  event at all the call on a non-empty list ends in an exception.
\<close>

theorem C4_apply_event_impact:
  "(event \<in> set predefined_events \<and> cs \<noteq> [] \<longrightarrow>
      apply_event_impact cs (event\<lparr>severity := sev\<rparr>) = (cs, Some AttributeError))
   \<and> (\<forall>e \<in> set predefined_events. \<forall>k \<in> set (map fst (impact e)).
         getattr c (attribute_of k) = Inl AttributeError)
   \<and> PsychologicalState_member ''ANXIOUS'' = Inl AttributeError
   \<and> PsychologicalState_member ''CALM'' = Inl AttributeError
   \<and> PsychologicalState_member ''AGGRESSIVE'' = Inl AttributeError
   \<and> (cs \<noteq> [] \<longrightarrow> snd (apply_event_impact cs any_event) \<noteq> None)"
proof -
  have first: "apply_event_impact cs (event\<lparr>severity := sev\<rparr>) = (cs, Some AttributeError)"
    if ev: "event \<in> set predefined_events" and ne: "cs \<noteq> []"
  proof -
    from ne obtain c0 rest where cs: "cs = c0 # rest" by (cases cs) auto
    from apply_effects_catalog [OF ev]
    have "apply_effects c0 sev (impact event) = (c0, Some AttributeError)" .
    with cs show ?thesis by simp
  qed
  from first getattr_catalog_keys missing_members apply_event_impact_raises
  show ?thesis by blast
qed

theorem C4_apply_event_impact_witness:
  "apply_event_impact [person ''Alice'' 0.3, person ''Bob'' 0.6]
      ((predefined_events ! 1)\<lparr>severity := 0.75\<rparr>)
     = ([person ''Alice'' 0.3, person ''Bob'' 0.6], Some AttributeError)
   \<and> getattr (person ''Alice'' 0.3) (attribute_of ''rebellion_chance_increase'') = Inl AttributeError"
proof -
  have ev: "predefined_events ! 1 \<in> set predefined_events"
    by (simp add: predefined_events_def)
  have ne: "[person ''Alice'' 0.3, person ''Bob'' 0.6] \<noteq> []" by simp
  have k: "''rebellion_chance_increase'' \<in> set (map fst (impact (predefined_events ! 1)))"
    by (simp add: predefined_events_def Event_init_def)
  note inst = C4_apply_event_impact [of "predefined_events ! 1"
      "[person ''Alice'' 0.3, person ''Bob'' 0.6]" "0.75" "person ''Alice'' 0.3"]
  from inst ev ne have a: "apply_event_impact [person ''Alice'' 0.3, person ''Bob'' 0.6]
      ((predefined_events ! 1)\<lparr>severity := 0.75\<rparr>)
     = ([person ''Alice'' 0.3, person ''Bob'' 0.6], Some AttributeError)"
    by blast
  from inst ev k have b: "getattr (person ''Alice'' 0.3)
      (attribute_of ''rebellion_chance_increase'') = Inl AttributeError"
    by blast
  from a b show ?thesis by blast
qed

section \<open>Succession\<close>

lemma weak_captain_eq:
  "weak_captain =
     \<lparr> objs = [mk_mchar 1 ''captain'' 50 35, mk_mchar 2 ''worker'' 60 70],
       ls_characters = [0, 1],
       groups = [\<lparr> identity = WORKERS, group_members = [(2, 1)], spokesperson = Some 1 \<rparr>],
       captain = Some 0 \<rparr>"
  by (simp add: weak_captain_def LeadershipSystem_init_def get_captain_def mk_mchar_def)

lemma strong_challenger_eq:
  "strong_challenger =
     \<lparr> objs = [mk_mchar 1 ''captain'' 50 35, mk_mchar 2 ''worker'' 200 70],
       ls_characters = [0, 1],
       groups = [\<lparr> identity = WORKERS, group_members = [(2, 1)], spokesperson = Some 1 \<rparr>],
       captain = Some 0 \<rparr>"
  by (simp add: strong_challenger_def LeadershipSystem_init_def get_captain_def mk_mchar_def)

lemma candidates_weak_captain: "candidates weak_captain 0 = [1]"
  by (simp add: weak_captain_eq candidates_def mk_mchar_def)

lemma candidates_strong_challenger: "candidates strong_challenger 0 = [1]"
  by (simp add: strong_challenger_eq candidates_def mk_mchar_def)

lemma power_scores_raises: "rs \<noteq> [] \<Longrightarrow> power_scores os rs = Inl TypeError"
  by (cases rs) (simp_all add: hash_Character_def)

text \<open>
  With a captain whose trust is below 40 and at least one challenger, the call raises
  TypeError and leaves the system as it was, whatever the influence of the challengers;
  in every other case it returns normally and changes nothing.
\<close>

lemma check_for_leadership_change_result:
  "check_for_leadership_change sys =
     (sys, case captain sys of
             None \<Rightarrow> None
           | Some cap \<Rightarrow>
               if m_trust_in_captain (objs sys ! cap) < 40 \<and> candidates sys cap \<noteq> []
               then Some TypeError else None)"
  by (simp add: check_for_leadership_change_def power_scores_raises split: option.split)

text \<open>
  C3. The succession check should depose a captain whose trust is below 40 when the top
  challenger's influence exceeds the captain's influence plus trust. With a captain of
  influence 50 and trust 35 and a challenger of influence 200, more than 85, the call
  raises TypeError where it builds the dict of power scores keyed by the characters:
  nobody is deposed, the captain stays captain and no role is written. In the scenario
  of the specification, with a challenger of influence 60, the call raises the same
  error before the comparison with 85 is reached.
\<close>

theorem C3_succession_raises_TypeError:
  "m_trust_in_captain (objs strong_challenger ! 0) = 35
   \<and> m_influence (objs strong_challenger ! 0) = 50
   \<and> m_influence (objs strong_challenger ! 1) = 200
   \<and> candidates strong_challenger 0 = [1]
   \<and> check_for_leadership_change strong_challenger = (strong_challenger, Some TypeError)
   \<and> map m_role (objs (fst (check_for_leadership_change strong_challenger)))
        = [''captain'', ''worker'']
   \<and> captain (fst (check_for_leadership_change strong_challenger)) = Some 0
   \<and> m_influence (objs weak_captain ! 1) = 60
   \<and> check_for_leadership_change weak_captain = (weak_captain, Some TypeError)"
proof -
  have cap: "captain strong_challenger = Some 0" "captain weak_captain = Some 0"
    by (simp_all add: strong_challenger_eq weak_captain_eq)
  have trust: "m_trust_in_captain (objs strong_challenger ! 0) = 35"
    "m_trust_in_captain (objs weak_captain ! 0) = 35"
    by (simp_all add: strong_challenger_eq weak_captain_eq mk_mchar_def)
  have r1: "check_for_leadership_change strong_challenger = (strong_challenger, Some TypeError)"
    by (simp add: check_for_leadership_change_result cap trust candidates_strong_challenger)
  have r2: "check_for_leadership_change weak_captain = (weak_captain, Some TypeError)"
    by (simp add: check_for_leadership_change_result cap trust candidates_weak_captain)
  have vals: "m_influence (objs strong_challenger ! 0) = 50"
    "m_influence (objs strong_challenger ! 1) = 200"
    "map m_role (objs strong_challenger) = [''captain'', ''worker'']"
    "m_influence (objs weak_captain ! 1) = 60"
    by (simp_all add: strong_challenger_eq weak_captain_eq mk_mchar_def)
  have roles: "map m_role (objs (fst (check_for_leadership_change strong_challenger)))
        = [''captain'', ''worker'']"
    unfolding r1 by (simp only: fst_conv vals)
  have still: "captain (fst (check_for_leadership_change strong_challenger)) = Some 0"
    unfolding r1 by (simp only: fst_conv cap)
  from trust(1) vals(1,2,4) candidates_strong_challenger r1 roles still r2
  show ?thesis by blast
qed

section \<open>The shape of the graph is kept by every operation\<close>

lemma joins_pair_iff: "joins k u v \<longleftrightarrow> {fst k, snd k} = {u, v}"
  by (cases k) (auto simp: joins_def doubleton_eq_iff)

lemma wf_graph_init: "wf_graph SocialSystem_init"
  by (simp add: wf_graph_def edge_keys_def SocialSystem_init_def)

lemma wf_graph_add_character: "wf_graph g \<Longrightarrow> wf_graph (add_character g c)"
  by (auto simp: wf_graph_def edge_keys_def add_character_def has_node_def)

lemma wf_graph_same_keys:
  assumes "wf_graph g" and "nodes g' = nodes g" and "edge_keys g' = edge_keys g"
  shows "wf_graph g'"
  using assms by (simp add: wf_graph_def has_node_def)

lemma wf_graph_add_relationship:
  assumes "wf_graph g" and "add_relationship g c1 c2 s t = Inr g'"
  shows "wf_graph g'"
proof (cases "has_node g (name c1) \<and> has_node g (name c2)")
  case False
  with assms(2) have "g' = g" by (auto simp: add_relationship_def)
  with assms(1) show ?thesis by simp
next
  case True
  show ?thesis
  proof (cases "has_edge g (name c1) (name c2)")
    case e: True
    with True assms(2) have g': "g' = g\<lparr>edges := map (\<lambda>e. if joins (fst e) (name c1) (name c2)
        then (fst e, \<lparr> weight = s, rel_type = t \<rparr>) else e) (edges g)\<rparr>"
      by (simp add: add_relationship_def add_edge_def)
    have "nodes g' = nodes g" and "edge_keys g' = edge_keys g"
      by (simp_all add: g' edge_keys_def map_fst_rewrite)
    with assms(1) show ?thesis by (rule wf_graph_same_keys)
  next
    case ne: False
    with True assms(2) have g': "g' = g\<lparr>edges := edges g @
        [((name c1, name c2), \<lparr> weight = s, rel_type = t \<rparr>)]\<rparr>"
      by (simp add: add_relationship_def add_edge_def)
    have keys: "edge_keys g' = edge_keys g @ [(name c1, name c2)]" and nodes: "nodes g' = nodes g"
      by (simp_all add: g' edge_keys_def)
    have fresh: "{name c1, name c2} \<notin> (\<lambda>k. {fst k, snd k}) ` set (edge_keys g)"
    proof
      assume "{name c1, name c2} \<in> (\<lambda>k. {fst k, snd k}) ` set (edge_keys g)"
      then obtain e where "e \<in> set (edges g)" "{fst (fst e), snd (fst e)} = {name c1, name c2}"
        by (auto simp: edge_keys_def)
      then have "has_edge g (name c1) (name c2)"
        unfolding has_edge_def joins_pair_iff by blast
      with ne show False by simp
    qed
    from assms(1) have d1: "distinct (map fst (nodes g))"
      and d2: "distinct (map (\<lambda>k. {fst k, snd k}) (edge_keys g))"
      and d3: "\<forall>k \<in> set (edge_keys g). has_node g (fst k) \<and> has_node g (snd k)"
      by (simp_all add: wf_graph_def)
    from d2 fresh have "distinct (map (\<lambda>k. {fst k, snd k}) (edge_keys g'))"
      by (simp add: keys)
    moreover from d3 True have "\<forall>k \<in> set (edge_keys g'). has_node g' (fst k) \<and> has_node g' (snd k)"
      by (simp add: keys has_node_def nodes)
    ultimately show ?thesis using d1 by (simp add: wf_graph_def nodes)
  qed
qed

lemma wf_graph_update_relationship:
  assumes "wf_graph g" and "update_relationship g c1 c2 it = Inr g'"
  shows "wf_graph g'"
proof (cases "has_edge g (name c1) (name c2)")
  case True
  with assms(2) have g': "g' = g\<lparr>edges := map (\<lambda>e. if joins (fst e) (name c1) (name c2)
        then (fst e, update_edge (fst (interaction_change it)) (snd (interaction_change it)) (snd e))
        else e) (edges g)\<rparr>"
    by (simp add: update_relationship_def Let_def)
  have "nodes g' = nodes g" and "edge_keys g' = edge_keys g"
    by (simp_all add: g' edge_keys_def map_fst_rewrite)
  with assms(1) show ?thesis by (rule wf_graph_same_keys)
next
  case False
  with assms(2) have "add_relationship g c1 c2 (max 0 (min 1 (fst (interaction_change it))))
     (case snd (interaction_change it) of Some t \<Rightarrow> t | None \<Rightarrow> NEUTRAL) = Inr g'"
    by (simp add: update_relationship_def Let_def)
  with assms(1) show ?thesis by (rule wf_graph_add_relationship)
qed

lemma decay_keys:
  "edge_keys (decay_relationships g rate)
     = map fst (filter (\<lambda>e. max 0 (weight (snd e) - rate) \<noteq> 0) (edges g))"
  by (simp add: edge_keys_def decay_relationships_def filter_map o_def)

lemma distinct_pairs_filter:
  "distinct (map (\<lambda>k. {fst k, snd k}) (map fst es)) \<Longrightarrow>
   distinct (map (\<lambda>k. {fst k, snd k}) (map fst (filter P es)))"
  by (induction es) auto

lemma wf_graph_decay:
  assumes "wf_graph g"
  shows "wf_graph (decay_relationships g rate)"
proof -
  from assms have d1: "distinct (map fst (nodes g))"
    and d2: "distinct (map (\<lambda>k. {fst k, snd k}) (map fst (edges g)))"
    and d3: "\<forall>k \<in> set (map fst (edges g)). has_node g (fst k) \<and> has_node g (snd k)"
    by (simp_all add: wf_graph_def edge_keys_def)
  have n: "nodes (decay_relationships g rate) = nodes g"
    by (simp add: decay_relationships_def)
  from d2 have a: "distinct (map (\<lambda>k. {fst k, snd k}) (edge_keys (decay_relationships g rate)))"
    unfolding decay_keys by (rule distinct_pairs_filter)
  from d3 have b: "\<forall>k \<in> set (edge_keys (decay_relationships g rate)).
      has_node (decay_relationships g rate) (fst k) \<and> has_node (decay_relationships g rate) (snd k)"
    unfolding decay_keys by (simp add: has_node_def n)
  from d1 a b show ?thesis by (simp add: wf_graph_def n)
qed

lemma wf_graph_pairs:
  "wf_graph g \<Longrightarrow> distinct (map (\<lambda>e. {fst (fst e), snd (fst e)}) (edges g))"
  by (simp add: wf_graph_def edge_keys_def o_def)

section \<open>The broken flag\<close>

lemma remove_member_broken:
  "card (members (remove_member a c)) < 2 \<Longrightarrow> broken (remove_member a c)"
  by (auto simp: remove_member_def Let_def split: if_splits)

lemma broken_stays:
  "broken a \<Longrightarrow> broken (remove_member a c)"
  "broken a \<Longrightarrow> broken (add_member a c)"
  by (simp_all add: remove_member_def add_member_def Let_def)

end
